theory Spec2Isabelle
  imports Complex_Main "HOL-Library.Word"
begin

unbundle bit_operations_syntax

section \<open>Images, masks and pixelwise operations\<close>

text \<open>
  The program is \<^verbatim>\<open>src/ws_server/pdi.py\<close>. An image is a numpy array of shape
  (rows, columns, channels) with \<^verbatim>\<open>uint8\<close> entries; it is modelled as a list of rows, each
  row a list of pixels. A colour pixel is the triple of its channels in the order numpy
  stores them (B, G, R for a colour image, H, S, V after the conversion), a mask has one
  \<^verbatim>\<open>uint8\<close> per pixel. A float is modelled by the rational number it denotes.
\<close>

type_synonym uint8 = "8 word"
type_synonym pixel = "uint8 \<times> uint8 \<times> uint8"
type_synonym pixel4 = "uint8 \<times> uint8 \<times> uint8 \<times> uint8"
type_synonym 'a matriz = "'a list list"

definition alto :: "'a matriz \<Rightarrow> nat" where
  "alto m = length m"

definition ancho :: "'a matriz \<Rightarrow> nat" where
  "ancho m = (case m of [] \<Rightarrow> 0 | fila # _ \<Rightarrow> length fila)"

definition px :: "'a matriz \<Rightarrow> nat \<Rightarrow> nat \<Rightarrow> 'a" where
  "px m i j = m ! i ! j"

text \<open>The array with \<open>h\<close> rows and \<open>w\<close> columns whose entry at \<open>(i, j)\<close> is \<open>f i j\<close>.\<close>

definition tabla :: "nat \<Rightarrow> nat \<Rightarrow> (nat \<Rightarrow> nat \<Rightarrow> 'a) \<Rightarrow> 'a matriz" where
  "tabla h w f = map (\<lambda>i. map (\<lambda>j. f i j) [0..<w]) [0..<h]"

text \<open>
  \<^verbatim>\<open>cv2.bitwise_and\<close>, \<^verbatim>\<open>cv2.bitwise_or\<close>, \<^verbatim>\<open>cv2.bitwise_not\<close> work on each byte. The binary
  ones need two arrays of one shape, which is the case at every call of the pipeline; the
  result has the shape of the first.
\<close>

definition bitwise_and :: "uint8 matriz \<Rightarrow> uint8 matriz \<Rightarrow> uint8 matriz" where
  "bitwise_and a b = tabla (alto a) (ancho a) (\<lambda>i j. px a i j AND px b i j)"

definition bitwise_or :: "uint8 matriz \<Rightarrow> uint8 matriz \<Rightarrow> uint8 matriz" where
  "bitwise_or a b = tabla (alto a) (ancho a) (\<lambda>i j. px a i j OR px b i j)"

definition bitwise_not :: "uint8 matriz \<Rightarrow> uint8 matriz" where
  "bitwise_not a = tabla (alto a) (ancho a) (\<lambda>i j. NOT (px a i j))"

text \<open>\<^verbatim>\<open>cv2.inRange\<close>: 255 where every channel lies within its bounds (inclusive), else 0.\<close>

definition en_rango :: "pixel \<Rightarrow> pixel \<Rightarrow> pixel \<Rightarrow> uint8" where
  "en_rango p lowerb upperb =
     (case (p, lowerb, upperb) of
        ((c0, c1, c2), (l0, l1, l2), (u0, u1, u2)) \<Rightarrow>
          if l0 \<le> c0 \<and> c0 \<le> u0 \<and> l1 \<le> c1 \<and> c1 \<le> u1 \<and> l2 \<le> c2 \<and> c2 \<le> u2
          then 255 else 0)"

definition inRange :: "pixel matriz \<Rightarrow> pixel \<Rightarrow> pixel \<Rightarrow> uint8 matriz" where
  "inRange src lowerb upperb =
     tabla (alto src) (ancho src) (\<lambda>i j. en_rango (px src i j) lowerb upperb)"

section \<open>Layer 1: colour segmentation (lines 38 to 61)\<close>

definition lower_green :: pixel where "lower_green = (25, 5, 5)"
definition upper_green :: pixel where "upper_green = (100, 255, 255)"
definition lower_brown :: pixel where "lower_brown = (5, 40, 20)"
definition upper_brown :: pixel where "upper_brown = (25, 200, 150)"
definition lower_red1 :: pixel where "lower_red1 = (0, 50, 20)"
definition upper_red1 :: pixel where "upper_red1 = (10, 200, 120)"
definition lower_red2 :: pixel where "lower_red2 = (170, 50, 20)"
definition upper_red2 :: pixel where "upper_red2 = (180, 200, 120)"

definition mascara_pasto_color :: "pixel matriz \<Rightarrow> uint8 matriz" where
  "mascara_pasto_color hsv = inRange hsv lower_green upper_green"

definition mascara_tierra_color :: "pixel matriz \<Rightarrow> uint8 matriz" where
  "mascara_tierra_color hsv =
     (let mascara_tierra1 = inRange hsv lower_brown upper_brown;
          mascara_tierra2 = inRange hsv lower_red1 upper_red1;
          mascara_tierra3 = inRange hsv lower_red2 upper_red2
      in bitwise_or (bitwise_or mascara_tierra1 mascara_tierra2) mascara_tierra3)"

section \<open>Layer 2: the vegetation index (lines 63 to 71)\<close>

text \<open>
  \<^verbatim>\<open>b, g, r = cv2.split(img_corregida.astype(np.float32))\<close>: the channels as floats, in the
  order blue, green, red. The index is computed on them; the denominator is replaced by
  \<^verbatim>\<open>1e-4\<close> where it is zero.
\<close>

definition a_float :: "uint8 \<Rightarrow> rat" where
  "a_float c = of_nat (unat c)"

definition vari :: "rat \<Rightarrow> rat \<Rightarrow> rat \<Rightarrow> rat" where
  "vari b g r =
     (let denominador = g + r - b;
          denominador = (if denominador = 0 then 1 / 10000 else denominador)
      in (g - r) / denominador)"

text \<open>\<^verbatim>\<open>np.uint8(255 * (vari > 0.03))\<close> at one pixel.\<close>

definition umbral_vi :: "rat \<Rightarrow> uint8" where
  "umbral_vi v = (if v > 3 / 100 then 255 else 0)"

definition mascara_vegetacion_vi :: "pixel matriz \<Rightarrow> uint8 matriz" where
  "mascara_vegetacion_vi img_corregida =
     tabla (alto img_corregida) (ancho img_corregida)
       (\<lambda>i j. case px img_corregida i j of
                 (b, g, r) \<Rightarrow> umbral_vi (vari (a_float b) (a_float g) (a_float r)))"

section \<open>Mask fusion (lines 80 and 81)\<close>

definition fusion :: "pixel matriz \<Rightarrow> pixel matriz \<Rightarrow> uint8 matriz \<times> uint8 matriz" where
  "fusion hsv img_corregida =
     (let mascara_pasto_final =
            bitwise_and (mascara_pasto_color hsv) (mascara_vegetacion_vi img_corregida);
          mascara_tierra_final =
            bitwise_and (mascara_tierra_color hsv) (bitwise_not mascara_pasto_final)
      in (mascara_pasto_final, mascara_tierra_final))"

section \<open>The overlay (lines 110 to 117)\<close>

definition color_pasto :: pixel4 where "color_pasto = (200, 180, 60, 110)"
definition color_tierra :: pixel4 where "color_tierra = (120, 87, 120, 110)"

definition zeros4 :: "nat \<Rightarrow> nat \<Rightarrow> pixel4 matriz" where
  "zeros4 h w = tabla h w (\<lambda>i j. (0, 0, 0, 0))"

text \<open>\<^verbatim>\<open>overlay[mask > 0] = color\<close>: the pixels where the mask is positive take the colour.\<close>

definition pintar :: "pixel4 matriz \<Rightarrow> uint8 matriz \<Rightarrow> pixel4 \<Rightarrow> pixel4 matriz" where
  "pintar overlay mascara color =
     tabla (alto overlay) (ancho overlay)
       (\<lambda>i j. if px mascara i j > 0 then color else px overlay i j)"

definition crear_overlay ::
  "pixel matriz \<Rightarrow> uint8 matriz \<Rightarrow> uint8 matriz \<Rightarrow> pixel4 matriz" where
  "crear_overlay img mascara_pasto_final mascara_tierra_final =
     (let overlay = zeros4 (alto img) (ancho img);
          overlay = pintar overlay mascara_pasto_final color_pasto;
          overlay = pintar overlay mascara_tierra_final color_tierra
      in overlay)"

section \<open>Morphology, small objects and blur (lines 86 to 99, 145 to 150)\<close>

text \<open>
  The positions of the image inside the square of radius \<open>k\<close> around \<open>(i, j)\<close>. The
  subtraction on naturals stops at 0, which is the clipping at the upper and left edges.
\<close>

definition ventana :: "nat \<Rightarrow> nat \<Rightarrow> nat \<Rightarrow> nat \<Rightarrow> nat \<Rightarrow> (nat \<times> nat) list" where
  "ventana k h w i j =
     concat (map (\<lambda>i'. map (\<lambda>j'. (i', j')) [j - k..<min w (j + k + 1)])
                 [i - k..<min h (i + k + 1)])"

text \<open>
  \<^verbatim>\<open>cv2.dilate\<close> and \<^verbatim>\<open>cv2.erode\<close> with \<^verbatim>\<open>kernel = np.ones((5, 5), np.uint8)\<close>, one
  iteration and the default border: the maximum, respectively the minimum, over the 5 by 5
  square around the pixel, positions outside the image left out.
\<close>

definition dilate_px :: "uint8 matriz \<Rightarrow> nat \<Rightarrow> nat \<Rightarrow> uint8" where
  "dilate_px src i j =
     fold max (map (\<lambda>(i', j'). px src i' j') (ventana 2 (alto src) (ancho src) i j)) 0"

definition dilate :: "uint8 matriz \<Rightarrow> uint8 matriz" where
  "dilate src = tabla (alto src) (ancho src) (dilate_px src)"

definition erode_px :: "uint8 matriz \<Rightarrow> nat \<Rightarrow> nat \<Rightarrow> uint8" where
  "erode_px src i j =
     fold min (map (\<lambda>(i', j'). px src i' j') (ventana 2 (alto src) (ancho src) i j)) 255"

definition erode :: "uint8 matriz \<Rightarrow> uint8 matriz" where
  "erode src = tabla (alto src) (ancho src) (erode_px src)"

text \<open>\<^verbatim>\<open>cv2.morphologyEx\<close> with \<^verbatim>\<open>MORPH_OPEN\<close> and with \<^verbatim>\<open>MORPH_CLOSE\<close>.\<close>

definition morphologyEx_OPEN :: "uint8 matriz \<Rightarrow> uint8 matriz" where
  "morphologyEx_OPEN src = dilate (erode src)"

definition morphologyEx_CLOSE :: "uint8 matriz \<Rightarrow> uint8 matriz" where
  "morphologyEx_CLOSE src = erode (dilate src)"

text \<open>
  \<^verbatim>\<open>cv2.connectedComponentsWithStats(mask, 8, cv2.CV_32S)\<close>: the pixels that are not zero
  are grouped into 8-connected components, label 0 is the background, the components are
  numbered from 1, and the area of a label is the number of its pixels. The model starts
  from one label per pixel and lets the smallest label of a neighbourhood spread until
  nothing changes (at most one round per pixel), then numbers the components in the order
  of their first pixel.
\<close>

definition etiqueta_inicial :: "uint8 matriz \<Rightarrow> nat \<Rightarrow> nat \<Rightarrow> nat" where
  "etiqueta_inicial src i j = (if px src i j \<noteq> 0 then i * ancho src + j + 1 else 0)"

definition etiquetar_px :: "nat matriz \<Rightarrow> nat \<Rightarrow> nat \<Rightarrow> nat" where
  "etiquetar_px lab i j =
     (if px lab i j = 0 then 0
      else fold min
             (filter (\<lambda>l. l \<noteq> 0)
                (map (\<lambda>(i', j'). px lab i' j') (ventana 1 (alto lab) (ancho lab) i j)))
             (px lab i j))"

definition etiquetar_paso :: "nat matriz \<Rightarrow> nat matriz" where
  "etiquetar_paso lab = tabla (alto lab) (ancho lab) (etiquetar_px lab)"

fun etiquetar_iter :: "nat \<Rightarrow> nat matriz \<Rightarrow> nat matriz" where
  "etiquetar_iter 0 lab = lab"
| "etiquetar_iter (Suc n) lab =
     (let lab' = etiquetar_paso lab in if lab' = lab then lab else etiquetar_iter n lab')"

definition numerar :: "nat list \<Rightarrow> nat matriz \<Rightarrow> nat \<Rightarrow> nat \<Rightarrow> nat" where
  "numerar ids rep i j =
     (if px rep i j = 0 then 0 else Suc (length (filter (\<lambda>l. l < px rep i j) ids)))"

definition connectedComponentsWithStats :: "uint8 matriz \<Rightarrow> nat \<times> nat matriz \<times> nat list" where
  "connectedComponentsWithStats src =
     (let h = alto src; w = ancho src;
          rep = etiquetar_iter (h * w) (tabla h w (etiqueta_inicial src));
          ids = remdups (filter (\<lambda>l. l \<noteq> 0) (concat rep));
          labels = tabla h w (numerar ids rep);
          stats = map (count_list (concat labels)) [0..<Suc (length ids)]
      in (Suc (length ids), labels, stats))"

text \<open>
  \<^verbatim>\<open>eliminar_pequenos_objetos\<close> (lines 145 to 150): every component whose area is below
  \<^verbatim>\<open>min_area\<close> is set to zero. The source writes into the array it was given and returns
  it; the caller keeps only the returned array.
\<close>

definition borrar_px :: "nat matriz \<Rightarrow> nat \<Rightarrow> uint8 matriz \<Rightarrow> nat \<Rightarrow> nat \<Rightarrow> uint8" where
  "borrar_px labels i m r c = (if px labels r c = i then 0 else px m r c)"

definition borrar_si_pequeno ::
  "rat \<Rightarrow> nat matriz \<Rightarrow> nat list \<Rightarrow> nat \<Rightarrow> uint8 matriz \<Rightarrow> uint8 matriz" where
  "borrar_si_pequeno min_area labels stats i m =
     (if of_nat (stats ! i) < min_area
      then tabla (alto m) (ancho m) (borrar_px labels i m)
      else m)"

definition eliminar_pequenos_objetos :: "uint8 matriz \<Rightarrow> rat \<Rightarrow> uint8 matriz" where
  "eliminar_pequenos_objetos mascara min_area =
     (case connectedComponentsWithStats mascara of
        (num_labels, labels, stats) \<Rightarrow>
          fold (borrar_si_pequeno min_area labels stats) [1..<num_labels] mascara)"

text \<open>
  \<^verbatim>\<open>cv2.GaussianBlur(mask, (5, 5), 0)\<close> on a \<^verbatim>\<open>uint8\<close> array. With sigma 0 and size 5 the
  kernel is (1, 4, 6, 4, 1) / 16 in each direction; the border is mirrored without
  repeating the edge pixel (\<^verbatim>\<open>BORDER_REFLECT_101\<close>: position \<open>p\<close> of a line of \<open>len\<close>
  pixels is read at \<open>reflejar len p\<close>, the reflection having period \<open>2 * (len - 1)\<close>);
  the weighted sum over the 5 by 5 square is divided by 256 and rounded to the nearest
  integer.
\<close>

definition reflejar :: "int \<Rightarrow> int \<Rightarrow> int" where
  "reflejar len p =
     (if len \<le> 1 then 0
      else (let q = p mod (2 * (len - 1)) in if q < len then q else 2 * (len - 1) - q))"

definition nucleo5 :: "(int \<times> nat) list" where
  "nucleo5 = [(-2, 1), (-1, 4), (0, 6), (1, 4), (2, 1)]"

definition blur_px :: "uint8 matriz \<Rightarrow> nat \<Rightarrow> nat \<Rightarrow> uint8" where
  "blur_px src i j =
     (let suma = sum_list (map (\<lambda>(di, ki). sum_list (map (\<lambda>(dj, kj).
                   ki * kj * unat (px src (nat (reflejar (int (alto src)) (int i + di)))
                                         (nat (reflejar (int (ancho src)) (int j + dj)))))
                 nucleo5)) nucleo5)
      in of_nat ((suma + 128) div 256))"

definition GaussianBlur :: "uint8 matriz \<Rightarrow> uint8 matriz" where
  "GaussianBlur src = tabla (alto src) (ancho src) (blur_px src)"

text \<open>
  The arithmetic of Python floats rounds every result to the nearest float. This rounding
  is the parameter \<open>fl\<close> of the functions that compute with floats: \<open>fl x\<close> is the float
  nearest to the real number \<open>x\<close>, so that the float literal \<^verbatim>\<open>0.001\<close> is \<open>fl (1 / 1000)\<close>
  and the product of two floats \<open>x\<close> and \<open>y\<close> is \<open>fl (x * y)\<close>.

  The cleaning of the two fused masks, lines 86 to 102. The last line is the source's
  \<^verbatim>\<open># Asegurar que las mascaras sean mutuamente excluyentes\<close>.
\<close>

definition limpiar ::
  "(rat \<Rightarrow> rat) \<Rightarrow> uint8 matriz \<Rightarrow> uint8 matriz \<Rightarrow> nat \<Rightarrow> uint8 matriz \<times> uint8 matriz" where
  "limpiar fl pasto_fusion tierra_fusion total_pixels =
     (let mascara_pasto_final = morphologyEx_OPEN pasto_fusion;
          mascara_pasto_final = morphologyEx_CLOSE mascara_pasto_final;
          mascara_pasto_final = dilate mascara_pasto_final;
          mascara_pasto_final =
            eliminar_pequenos_objetos mascara_pasto_final
              (fl (of_nat total_pixels * fl (1 / 1000)));
          mascara_pasto_final = GaussianBlur mascara_pasto_final;
          mascara_tierra_final = morphologyEx_OPEN tierra_fusion;
          mascara_tierra_final = morphologyEx_CLOSE mascara_tierra_final;
          mascara_tierra_final =
            eliminar_pequenos_objetos mascara_tierra_final
              (fl (of_nat total_pixels * fl (5 / 1000)));
          mascara_tierra_final = GaussianBlur mascara_tierra_final;
          mascara_tierra_final =
            bitwise_and mascara_tierra_final (bitwise_not mascara_pasto_final)
      in (mascara_pasto_final, mascara_tierra_final))"

section \<open>Percentages (lines 104 to 107, 152 to 155)\<close>

text \<open>
  A Python number is an \<^verbatim>\<open>int\<close> or a \<^verbatim>\<open>float\<close>; \<^verbatim>\<open>porcentaje_mascara\<close> returns the
  \<^verbatim>\<open>int\<close> 0 for an empty image and a \<^verbatim>\<open>float\<close> otherwise, and \<^verbatim>\<open>max(0, x)\<close> returns the
  \<^verbatim>\<open>int\<close> 0 unless \<open>x\<close> is greater.
\<close>

datatype numero = Entero int | Flotante rat

fun valor :: "numero \<Rightarrow> rat" where
  "valor (Entero n) = of_int n"
| "valor (Flotante x) = x"

fun resta :: "(rat \<Rightarrow> rat) \<Rightarrow> numero \<Rightarrow> numero \<Rightarrow> numero" where
  "resta fl (Entero a) (Entero b) = Entero (a - b)"
| "resta fl a b = Flotante (fl (valor a - valor b))"

definition max0 :: "numero \<Rightarrow> numero" where
  "max0 x = (if valor x > 0 then x else Entero 0)"

definition countNonZero :: "uint8 matriz \<Rightarrow> nat" where
  "countNonZero m = sum_list (map (\<lambda>fila. length (filter (\<lambda>v. v \<noteq> 0) fila)) m)"

definition porcentaje_mascara :: "(rat \<Rightarrow> rat) \<Rightarrow> uint8 matriz \<Rightarrow> nat \<Rightarrow> numero" where
  "porcentaje_mascara fl mascara total_pixels =
     (if total_pixels = 0 then Entero 0
      else Flotante (fl (fl (of_nat (countNonZero mascara) / of_nat total_pixels) * 100)))"

definition porcentajes ::
  "(rat \<Rightarrow> rat) \<Rightarrow> uint8 matriz \<Rightarrow> uint8 matriz \<Rightarrow> nat \<Rightarrow> numero \<times> numero \<times> numero" where
  "porcentajes fl mascara_pasto_final mascara_tierra_final total_pixels =
     (let porc_pasto = porcentaje_mascara fl mascara_pasto_final total_pixels;
          porc_tierra = porcentaje_mascara fl mascara_tierra_final total_pixels;
          porc_otros = max0 (resta fl (resta fl (Entero 100) porc_pasto) porc_tierra)
      in (porc_pasto, porc_tierra, porc_otros))"

text \<open>
  \<^verbatim>\<open>round(x, n)\<close> of a float: the number the float denotes is rounded to the nearest
  multiple of \<open>10\<^sup>-\<^sup>n\<close>, a tie to the even one, and the result is the float nearest to
  that decimal number. An \<^verbatim>\<open>int\<close> is returned as it is.
\<close>

definition redondeo_par :: "rat \<Rightarrow> int" where
  "redondeo_par x =
     (let f = \<lfloor>x\<rfloor>; d = x - of_int f
      in if d < 1 / 2 then f else if d > 1 / 2 then f + 1 else if even f then f else f + 1)"

fun py_round :: "(rat \<Rightarrow> rat) \<Rightarrow> numero \<Rightarrow> nat \<Rightarrow> numero" where
  "py_round fl (Entero n) k = Entero n"
| "py_round fl (Flotante x) k = Flotante (fl (of_int (redondeo_par (x * 10 ^ k)) / 10 ^ k))"

section \<open>The composite image (lines 120 and 121)\<close>

definition saturar :: "int \<Rightarrow> uint8" where
  "saturar x = (if x < 0 then 0 else if x > 255 then 255 else of_int x)"

text \<open>\<^verbatim>\<open>cv2.addWeighted(img_base, 1.0, overlay, 0.4, 0)\<close> on one channel.\<close>

definition mezclar :: "uint8 \<Rightarrow> uint8 \<Rightarrow> uint8" where
  "mezclar a b = saturar (redondeo_par (a_float a * 1 + a_float b * (4 / 10) + 0))"

definition componer :: "pixel matriz \<Rightarrow> pixel4 matriz \<Rightarrow> pixel4 matriz" where
  "componer img overlay =
     tabla (alto img) (ancho img)
       (\<lambda>i j. case (px img i j, px overlay i j) of
                 ((b, g, r), (ob, og, orr, oa)) \<Rightarrow>
                   (mezclar b ob, mezclar g og, mezclar r orr, mezclar 255 oa))"

section \<open>Base64 and JSON text\<close>

definition alfabeto :: string where
  "alfabeto = ''ABCDEFGHIJKLMNOPQRSTUVWXYZabcdefghijklmnopqrstuvwxyz0123456789+/''"

definition b64char :: "nat \<Rightarrow> char" where
  "b64char n = alfabeto ! (n mod 64)"

fun b64encode :: "uint8 list \<Rightarrow> string" where
  "b64encode [] = []"
| "b64encode [a] =
     (let n = unat a * 65536
      in [b64char (n div 262144), b64char (n div 4096), CHR ''='', CHR ''=''])"
| "b64encode [a, b] =
     (let n = unat a * 65536 + unat b * 256
      in [b64char (n div 262144), b64char (n div 4096), b64char (n div 64), CHR ''=''])"
| "b64encode (a # b # c # resto) =
     (let n = unat a * 65536 + unat b * 256 + unat c
      in [b64char (n div 262144), b64char (n div 4096), b64char (n div 64), b64char n]
         @ b64encode resto)"

datatype json = Numero numero | Cadena string

type_synonym dict = "(string \<times> json) list"

text \<open>\<^verbatim>\<open>d[k] = v\<close> on a dictionary that keeps the order of insertion.\<close>

fun asignar :: "string \<Rightarrow> json \<Rightarrow> dict \<Rightarrow> dict" where
  "asignar k v [] = [(k, v)]"
| "asignar k v ((k', v') # d) = (if k' = k then (k, v) # d else (k', v') # asignar k v d)"

text \<open>
  \<^verbatim>\<open>json.dumps\<close> of a dictionary of numbers and strings. The strings stored by this program
  (the keys and the data URI) consist of letters, digits and \<^verbatim>\<open>_ : ; , / + =\<close>, none of
  which is escaped. How a number is printed is a parameter.
\<close>

definition comillas :: "string \<Rightarrow> string" where
  "comillas s = [CHR 0x22] @ s @ [CHR 0x22]"

fun dumps_valor :: "(numero \<Rightarrow> string) \<Rightarrow> json \<Rightarrow> string" where
  "dumps_valor rp (Numero n) = rp n"
| "dumps_valor rp (Cadena s) = comillas s"

fun dumps_items :: "(numero \<Rightarrow> string) \<Rightarrow> dict \<Rightarrow> string" where
  "dumps_items rp [] = []"
| "dumps_items rp [(k, v)] = comillas k @ '': '' @ dumps_valor rp v"
| "dumps_items rp ((k, v) # d) =
     comillas k @ '': '' @ dumps_valor rp v @ '', '' @ dumps_items rp d"

definition json_dumps :: "(numero \<Rightarrow> string) \<Rightarrow> dict \<Rightarrow> string" where
  "json_dumps rp d = ''{'' @ dumps_items rp d @ ''}''"

section \<open>The pipeline: \<^verbatim>\<open>procesar_imagen\<close> (lines 9 to 143)\<close>

text \<open>
  The calls into OpenCV, the standard library and the clock whose results the program only
  passes on are parameters of the model:
  \<^item> \<open>b64decode\<close>: \<^verbatim>\<open>base64.b64decode\<close>, \<open>Inl\<close> the message of the exception it raises;
  \<^item> \<open>imdecode\<close>: \<^verbatim>\<open>cv2.imdecode(np.frombuffer(..), cv2.IMREAD_COLOR)\<close>, \<open>Inl\<close> the message
    of a raised exception, \<open>Inr None\<close> when it returns \<^verbatim>\<open>None\<close>;
  \<^item> \<open>corregir\<close>: lines 23 to 28, the conversion to LAB, CLAHE on the lightness and the
    conversion back;
  \<^item> \<open>a_hsv\<close>: lines 33 to 36, the conversion to HSV with the V channel equalised;
  \<^item> \<open>imencode_jpg\<close>: \<^verbatim>\<open>cv2.imencode('.jpg', img, [IMWRITE_JPEG_QUALITY, q])\<close>;
  \<^item> \<open>repr\<close>: the text \<^verbatim>\<open>json.dumps\<close> prints for a number;
  \<^item> \<open>fl\<close>: the rounding of a real number to the nearest float.
  The texture mask of lines 73 to 79 is computed by the source and never read; it has no
  part in the result and is left out.
\<close>

record biblioteca =
  b64decode :: "string \<Rightarrow> string + uint8 list"
  imdecode :: "uint8 list \<Rightarrow> string + pixel matriz option"
  corregir :: "pixel matriz \<Rightarrow> pixel matriz"
  a_hsv :: "pixel matriz \<Rightarrow> pixel matriz"
  imencode_jpg :: "nat \<Rightarrow> pixel4 matriz \<Rightarrow> uint8 list"
  repr :: "numero \<Rightarrow> string"
  fl :: "rat \<Rightarrow> rat"

datatype excepcion = ValueError string

fun str :: "excepcion \<Rightarrow> string" where
  "str (ValueError m) = m"

text \<open>\<^verbatim>\<open>s.split(',')\<close> and its last element.\<close>

fun split :: "char \<Rightarrow> string \<Rightarrow> string list" where
  "split sep [] = [[]]"
| "split sep (c # cs) =
     (if c = sep then [] # split sep cs
      else (case split sep cs of [] \<Rightarrow> [[c]] | p # ps \<Rightarrow> (c # p) # ps))"

definition ultimo_campo :: "string \<Rightarrow> string" where
  "ultimo_campo s = last (split (CHR '','') s)"

definition imagen_nula :: string where
  "imagen_nula = ''Imagen nula despu'' @ [CHR 0xE9] @ ''s de decodificar''"

text \<open>Lines 11 to 18: every exception of the decoding is raised again as a ValueError.\<close>

definition decodificar :: "biblioteca \<Rightarrow> string \<Rightarrow> excepcion + pixel matriz" where
  "decodificar cv base64_data_str =
     (case b64decode cv (ultimo_campo base64_data_str) of
        Inl e \<Rightarrow> Inl (ValueError (''Error decodificando imagen: '' @ e))
      | Inr img_data \<Rightarrow>
          (case imdecode cv img_data of
             Inl e \<Rightarrow> Inl (ValueError (''Error decodificando imagen: '' @ e))
           | Inr None \<Rightarrow> Inl (ValueError (''Error decodificando imagen: '' @ imagen_nula))
           | Inr (Some img) \<Rightarrow> Inr img))"

text \<open>Lines 20 to 107: from the decoded image to the final masks.\<close>

definition mascaras_finales :: "biblioteca \<Rightarrow> pixel matriz \<Rightarrow> uint8 matriz \<times> uint8 matriz" where
  "mascaras_finales cv img =
     (let total_pixels = alto img * ancho img;
          img_corregida = corregir cv img;
          hsv = a_hsv cv img_corregida;
          (pasto_fusion, tierra_fusion) = fusion hsv img_corregida
      in limpiar (fl cv) pasto_fusion tierra_fusion total_pixels)"

definition data_uri :: "uint8 list \<Rightarrow> string" where
  "data_uri buffer = ''data:image/jpeg;base64,'' @ b64encode buffer"

text \<open>
  Lines 104 to 143: the percentages, the composite image and the response. \<open>t\<close> is the
  value \<^verbatim>\<open>time.time()\<close> returns at line 133.
\<close>

definition ensamblar :: "biblioteca \<Rightarrow> rat \<Rightarrow> pixel matriz \<Rightarrow> dict" where
  "ensamblar cv t img =
     (let total_pixels = alto img * ancho img;
          (mascara_pasto_final, mascara_tierra_final) = mascaras_finales cv img;
          (porc_pasto, porc_tierra, porc_otros) =
            porcentajes (fl cv) mascara_pasto_final mascara_tierra_final total_pixels;
          overlay = crear_overlay img mascara_pasto_final mascara_tierra_final;
          img_final = componer img overlay;
          buffer = imencode_jpg cv 85 img_final;
          response =
            [(''pasto'', Numero (py_round (fl cv) porc_pasto 2)),
             (''tierra'', Numero (py_round (fl cv) porc_tierra 2)),
             (''otros'', Numero (py_round (fl cv) porc_otros 2)),
             (''overlay_image'', Cadena (data_uri buffer)),
             (''timestamp'', Numero (Flotante t))];
          json_str = json_dumps (repr cv) response
      in if length json_str > 1000000
         then asignar ''overlay_image'' (Cadena (data_uri (imencode_jpg cv 65 img_final)))
                response
         else response)"

definition procesar_imagen :: "biblioteca \<Rightarrow> rat \<Rightarrow> string \<Rightarrow> excepcion + dict" where
  "procesar_imagen cv t base64_data_str =
     (case decodificar cv base64_data_str of
        Inl e \<Rightarrow> Inl e
      | Inr img \<Rightarrow> Inr (ensamblar cv t img))"

section \<open>The request loop: \<^verbatim>\<open>main\<close> (lines 157 to 196)\<close>

text \<open>
  One round of the loop reads a line. A blank line writes nothing. Otherwise the round
  writes either the result, as one line of JSON on the standard output, or an error
  dictionary, as a block on the standard error; both are given here as the dictionary
  handed to \<^verbatim>\<open>json.dumps\<close>. \<open>t0\<close>, \<open>t1\<close>, \<open>t2\<close> are the successive readings of the clock in
  the round. The loop then goes on with the next line.
\<close>

datatype salida = Nada | Stdout dict | Stderr dict

definition es_espacio :: "char \<Rightarrow> bool" where
  "es_espacio c = (c \<in> set [CHR 0x09, CHR 0x0A, CHR 0x0B, CHR 0x0C, CHR 0x0D,
                             CHR 0x1C, CHR 0x1D, CHR 0x1E, CHR 0x1F, CHR 0x20,
                             CHR 0x85, CHR 0xA0])"

definition strip :: "string \<Rightarrow> string" where
  "strip s = rev (dropWhile es_espacio (rev (dropWhile es_espacio s)))"

definition main_paso :: "biblioteca \<Rightarrow> string \<Rightarrow> rat \<Rightarrow> rat \<Rightarrow> rat \<Rightarrow> salida" where
  "main_paso cv entrada t0 t1 t2 =
     (let line = strip entrada
      in if line = [] then Nada
         else (let start_time = t0
               in case procesar_imagen cv t1 line of
                    Inr resultado \<Rightarrow>
                      (let elapsed = fl cv (t2 - start_time);
                           resultado = asignar ''tiempo_procesamiento''
                                         (Numero (py_round (fl cv) (Flotante elapsed) 3))
                                         resultado
                       in Stdout resultado)
                  | Inl e \<Rightarrow>
                      Stderr [(''error'', Cadena (''Error procesando imagen: '' @ str e)),
                              (''timestamp'', Numero (Flotante t1))]))"

fun main :: "biblioteca \<Rightarrow> (string \<times> rat \<times> rat \<times> rat) list \<Rightarrow> salida list" where
  "main cv [] = []"
| "main cv ((entrada, t0, t1, t2) # resto) = main_paso cv entrada t0 t1 t2 # main cv resto"

section \<open>Notions used to state the properties\<close>

text \<open>The composite image that is encoded, and the response with the overlay at quality \<open>q\<close>.\<close>

definition imagen_final :: "biblioteca \<Rightarrow> pixel matriz \<Rightarrow> pixel4 matriz" where
  "imagen_final cv img =
     (case mascaras_finales cv img of
        (mascara_pasto_final, mascara_tierra_final) \<Rightarrow>
          componer img (crear_overlay img mascara_pasto_final mascara_tierra_final))"

definition fracciones :: "biblioteca \<Rightarrow> pixel matriz \<Rightarrow> numero \<times> numero \<times> numero" where
  "fracciones cv img =
     (case mascaras_finales cv img of
        (mascara_pasto_final, mascara_tierra_final) \<Rightarrow>
          porcentajes (fl cv) mascara_pasto_final mascara_tierra_final
            (alto img * ancho img))"

definition respuesta_q :: "biblioteca \<Rightarrow> rat \<Rightarrow> pixel matriz \<Rightarrow> nat \<Rightarrow> dict" where
  "respuesta_q cv t img q =
     (case fracciones cv img of
        (porc_pasto, porc_tierra, porc_otros) \<Rightarrow>
          [(''pasto'', Numero (py_round (fl cv) porc_pasto 2)),
           (''tierra'', Numero (py_round (fl cv) porc_tierra 2)),
           (''otros'', Numero (py_round (fl cv) porc_otros 2)),
           (''overlay_image'', Cadena (data_uri (imencode_jpg cv q (imagen_final cv img)))),
           (''timestamp'', Numero (Flotante t))])"

text \<open>The length of the JSON text of the response with the overlay at quality \<open>q\<close>.\<close>

definition tamano :: "biblioteca \<Rightarrow> rat \<Rightarrow> pixel matriz \<Rightarrow> nat \<Rightarrow> nat" where
  "tamano cv t img q = length (json_dumps (repr cv) (respuesta_q cv t img q))"

text \<open>
  The payload does not decode: \<^verbatim>\<open>b64decode\<close> raises, or \<^verbatim>\<open>imdecode\<close> raises or returns
  \<^verbatim>\<open>None\<close>.
\<close>

definition no_decodifica :: "biblioteca \<Rightarrow> string \<Rightarrow> bool" where
  "no_decodifica cv s =
     (case b64decode cv (ultimo_campo s) of
        Inl e \<Rightarrow> True
      | Inr img_data \<Rightarrow> (case imdecode cv img_data of Inr (Some img) \<Rightarrow> False | _ \<Rightarrow> True))"

text \<open>The colour conversions return an image of the shape of the decoded image.\<close>

definition conserva_forma :: "biblioteca \<Rightarrow> pixel matriz \<Rightarrow> bool" where
  "conserva_forma cv img =
     (alto (a_hsv cv (corregir cv img)) = alto img
      \<and> ancho (a_hsv cv (corregir cv img)) = ancho img)"

text \<open>
  What the properties below need of the rounding to the nearest float: it is monotone and
  the numbers 0, 1 and 100, which are floats, are their own nearest float.
\<close>

definition redondeo_fiel :: "(rat \<Rightarrow> rat) \<Rightarrow> bool" where
  "redondeo_fiel f = ((\<forall>x y. x \<le> y \<longrightarrow> f x \<le> f y) \<and> f 0 = 0 \<and> f 1 = 1 \<and> f 100 = 100)"

text \<open>The three fractions of a response.\<close>

definition fracciones_de :: "dict \<Rightarrow> json option list" where
  "fracciones_de d = map (map_of d) [''pasto'', ''tierra'', ''otros'']"

text \<open>
  Two libraries for the examples. With the first nothing decodes: \<^verbatim>\<open>b64decode\<close> raises.
  With the second every payload decodes to one black pixel and the encoder returns
  \<open>n85\<close> bytes at quality 85 and \<open>n65\<close> bytes at any other quality.
\<close>

definition cv_nulo :: biblioteca where
  "cv_nulo =
     \<lparr>b64decode = (\<lambda>s. Inl ''Incorrect padding''), imdecode = (\<lambda>b. Inr None),
      corregir = (\<lambda>img. img), a_hsv = (\<lambda>img. img), imencode_jpg = (\<lambda>q img. []),
      repr = (\<lambda>n. ''0.0''), fl = (\<lambda>x. x)\<rparr>"

definition cv_grande :: "nat \<Rightarrow> nat \<Rightarrow> biblioteca" where
  "cv_grande n85 n65 =
     \<lparr>b64decode = (\<lambda>s. Inr []), imdecode = (\<lambda>b. Inr (Some [[(0, 0, 0)]])),
      corregir = (\<lambda>img. img), a_hsv = (\<lambda>img. img),
      imencode_jpg = (\<lambda>q img. replicate (if q = 85 then n85 else n65) 0),
      repr = (\<lambda>n. ''0.0''), fl = (\<lambda>x. x)\<rparr>"

text \<open>
  A third library, to compare two runs: as the second, with 749,913 bytes at quality 85
  and 500,000 at quality 65, and the two clock readings 1700000000.25 and 1700000000.0625
  printed as Python prints them, with 13 and 15 characters.
\<close>

definition cv_reloj :: biblioteca where
  "cv_reloj =
     \<lparr>b64decode = (\<lambda>s. Inr []), imdecode = (\<lambda>b. Inr (Some [[(0, 0, 0)]])),
      corregir = (\<lambda>img. img), a_hsv = (\<lambda>img. img),
      imencode_jpg = (\<lambda>q img. replicate (if q = 85 then 749913 else 500000) 0),
      repr = (\<lambda>n. if n = Flotante (6800000001 / 4) then ''1700000000.25''
                    else if n = Flotante (27200000001 / 16) then ''1700000000.0625''
                    else ''0.0''),
      fl = (\<lambda>x. x)\<rparr>"





section \<open>Facts about arrays\<close>

lemma alto_tabla: "alto (tabla h w f) = h"
  by (simp add: alto_def tabla_def)

lemma ancho_tabla: "ancho (tabla h w f) = (if h = 0 then 0 else w)"
  by (cases h) (simp_all add: ancho_def tabla_def upt_conv_Cons del: upt_Suc)

lemma px_tabla: "i < h \<Longrightarrow> j < w \<Longrightarrow> px (tabla h w f) i j = f i j"
  by (simp add: px_def tabla_def)

lemma px_bitwise_and:
  "i < alto a \<Longrightarrow> j < ancho a \<Longrightarrow> px (bitwise_and a b) i j = px a i j AND px b i j"
  by (simp add: bitwise_and_def px_tabla)

lemma px_bitwise_or:
  "i < alto a \<Longrightarrow> j < ancho a \<Longrightarrow> px (bitwise_or a b) i j = px a i j OR px b i j"
  by (simp add: bitwise_or_def px_tabla)

lemma px_bitwise_not:
  "i < alto a \<Longrightarrow> j < ancho a \<Longrightarrow> px (bitwise_not a) i j = NOT (px a i j)"
  by (simp add: bitwise_not_def px_tabla)

lemma px_inRange:
  "i < alto src \<Longrightarrow> j < ancho src \<Longrightarrow>
   px (inRange src lo hi) i j = en_rango (px src i j) lo hi"
  by (simp add: inRange_def px_tabla)

lemma forma_bitwise_and: "alto (bitwise_and a b) = alto a" "0 < alto a \<Longrightarrow> ancho (bitwise_and a b) = ancho a"
  by (simp_all add: bitwise_and_def alto_tabla ancho_tabla)

lemma forma_bitwise_or: "alto (bitwise_or a b) = alto a" "0 < alto a \<Longrightarrow> ancho (bitwise_or a b) = ancho a"
  by (simp_all add: bitwise_or_def alto_tabla ancho_tabla)

lemma forma_bitwise_not: "alto (bitwise_not a) = alto a" "0 < alto a \<Longrightarrow> ancho (bitwise_not a) = ancho a"
  by (simp_all add: bitwise_not_def alto_tabla ancho_tabla)

lemma forma_inRange: "alto (inRange src lo hi) = alto src" "0 < alto src \<Longrightarrow> ancho (inRange src lo hi) = ancho src"
  by (simp_all add: inRange_def alto_tabla ancho_tabla)

lemma en_rango_binaria: "en_rango p lo hi = 0 \<or> en_rango p lo hi = 255"
  by (simp add: en_rango_def split: prod.splits)

lemma umbral_vi_binaria: "umbral_vi v = 0 \<or> umbral_vi v = 255"
  by (simp add: umbral_vi_def)

section \<open>The vegetation index\<close>

lemma px_vegetacion_vi:
  assumes "i < alto img" "j < ancho img" and "px img i j = (b, g, r)"
  shows "px (mascara_vegetacion_vi img) i j =
           umbral_vi (vari (a_float b) (a_float g) (a_float r))"
  using assms by (simp add: mascara_vegetacion_vi_def px_tabla)

text \<open>
  Claim C4. For float channels \<open>g\<close>, \<open>r\<close>, \<open>b\<close> the index is \<open>(g - r) / d\<close>, where \<open>d\<close> is
  \<open>g + r - b\<close> when that is not zero and \<open>1e-4\<close> when it is. At every pixel of the
  corrected image, with channels B, G, R = \<open>b\<close>, \<open>g\<close>, \<open>r\<close>, the byte of the vegetation-index
  mask is 255 when the index of the pixel's channels, taken as floats, is above \<open>0.03\<close>,
  and 0 otherwise: the pixel is in the mask exactly when its index is above \<open>0.03\<close>. The
  pixel with green 200, red 100 and blue 50 has index \<open>0.4\<close> and is in the mask.
\<close>

theorem C4_indice_vegetacion:
  assumes "i < alto img" "j < ancho img" and "px img i j = (b, g, r)"
  shows "vari bf gf rf = (gf - rf) / (if gf + rf - bf = 0 then 1 / 10000 else gf + rf - bf)
       \<and> px (mascara_vegetacion_vi img) i j =
           (if vari (a_float b) (a_float g) (a_float r) > 3 / 100 then 255 else 0)
       \<and> (px (mascara_vegetacion_vi img) i j \<noteq> 0) =
           (vari (a_float b) (a_float g) (a_float r) > 3 / 100)
       \<and> a_float 50 = 50 \<and> a_float 200 = 200 \<and> a_float 100 = 100
       \<and> vari 50 200 100 = 4 / 10
       \<and> mascara_vegetacion_vi [[(50, 200, 100)]] = [[255]]"
proof -
  have a: "vari bf gf rf = (gf - rf) / (if gf + rf - bf = 0 then 1 / 10000 else gf + rf - bf)"
    by (simp add: vari_def Let_def)
  have b: "px (mascara_vegetacion_vi img) i j =
             (if vari (a_float b) (a_float g) (a_float r) > 3 / 100 then 255 else 0)"
    by (simp add: px_vegetacion_vi [OF assms] umbral_vi_def)
  have c: "(px (mascara_vegetacion_vi img) i j \<noteq> 0) =
             (vari (a_float b) (a_float g) (a_float r) > 3 / 100)"
    by (simp add: b)
  have d: "a_float 50 = 50 \<and> a_float 200 = 200 \<and> a_float 100 = 100
           \<and> vari 50 200 100 = 4 / 10
           \<and> mascara_vegetacion_vi [[(50, 200, 100)]] = [[255]]"
    by (simp add: vari_def umbral_vi_def a_float_def mascara_vegetacion_vi_def tabla_def
        alto_def ancho_def px_def Let_def)
  from a b c d show ?thesis by simp
qed

text \<open>
  The witness: in an image of two pixels the first, with green 200, red 100 and blue 50,
  is in the mask, and the second, with B, G, R = 60, 110, 120 and a negative index, is not.
\<close>

theorem C4_indice_vegetacion_witness:
  "px (mascara_vegetacion_vi [[(50, 200, 100), (60, 110, 120)]]) 0 0 = 255
   \<and> vari (a_float 50) (a_float 200) (a_float 100) = 4 / 10
   \<and> px (mascara_vegetacion_vi [[(50, 200, 100), (60, 110, 120)]]) 0 1 = 0
   \<and> vari (a_float 60) (a_float 110) (a_float 120) = - 1 / 17"
proof -
  have f: "0 < alto [[(50, 200, 100), (60, 110, 120) :: pixel]]"
    "0 < ancho [[(50, 200, 100), (60, 110, 120) :: pixel]]"
    "1 < ancho [[(50, 200, 100), (60, 110, 120) :: pixel]]"
    by (simp_all add: alto_def ancho_def)
  have p0: "px [[(50, 200, 100), (60, 110, 120) :: pixel]] 0 0 = (50, 200, 100)"
    and p1: "px [[(50, 200, 100), (60, 110, 120) :: pixel]] 0 1 = (60, 110, 120)"
    by (simp_all add: px_def)
  have v0: "vari (a_float 50) (a_float 200) (a_float 100) = 4 / 10"
    and v1: "vari (a_float 60) (a_float 110) (a_float 120) = - 1 / 17"
    by (simp_all add: vari_def a_float_def)
  from C4_indice_vegetacion [OF f(1) f(2) p0] C4_indice_vegetacion [OF f(1) f(3) p1] v0 v1
  show ?thesis by simp
qed

section \<open>Mask fusion\<close>

lemma and_binaria:
  fixes a b :: uint8
  assumes "a = 0 \<or> a = 255" "b = 0 \<or> b = 255"
  shows "(a AND b \<noteq> 0) = (a \<noteq> 0 \<and> b \<noteq> 0)" "a AND b = 0 \<or> a AND b = 255"
  using assms by auto

lemma or_binaria:
  fixes a b :: uint8
  assumes "a = 0 \<or> a = 255" "b = 0 \<or> b = 255"
  shows "a OR b = 0 \<or> a OR b = 255"
  using assms by auto

lemma and_not_binaria:
  fixes a b :: uint8
  assumes "a = 0 \<or> a = 255" "b = 0 \<or> b = 255"
  shows "(a AND NOT b \<noteq> 0) = (a \<noteq> 0 \<and> b = 0)"
  using assms by auto

lemma px_pasto_color_binaria:
  assumes "i < alto hsv" "j < ancho hsv"
  shows "px (mascara_pasto_color hsv) i j = 0 \<or> px (mascara_pasto_color hsv) i j = 255"
  using assms by (simp add: mascara_pasto_color_def px_inRange en_rango_binaria)

lemma px_tierra_color:
  assumes "i < alto hsv" "j < ancho hsv"
  shows "px (mascara_tierra_color hsv) i j =
           (en_rango (px hsv i j) lower_brown upper_brown
            OR en_rango (px hsv i j) lower_red1 upper_red1)
           OR en_rango (px hsv i j) lower_red2 upper_red2"
  using assms
  by (simp add: mascara_tierra_color_def Let_def px_bitwise_or px_inRange forma_bitwise_or
      forma_inRange)

lemma px_tierra_color_binaria:
  assumes "i < alto hsv" "j < ancho hsv"
  shows "px (mascara_tierra_color hsv) i j = 0 \<or> px (mascara_tierra_color hsv) i j = 255"
  unfolding px_tierra_color [OF assms]
  by (intro or_binaria en_rango_binaria)

lemma px_vegetacion_vi_binaria:
  assumes "i < alto img" "j < ancho img"
  shows "px (mascara_vegetacion_vi img) i j = 0 \<or> px (mascara_vegetacion_vi img) i j = 255"
  using assms
  by (simp add: mascara_vegetacion_vi_def px_tabla umbral_vi_binaria split: prod.splits)

lemma px_fusion_pasto:
  assumes "i < alto hsv" "j < ancho hsv"
  shows "px (fst (fusion hsv img)) i j =
           px (mascara_pasto_color hsv) i j AND px (mascara_vegetacion_vi img) i j"
  using assms
  by (simp add: fusion_def Let_def px_bitwise_and mascara_pasto_color_def forma_inRange)

lemma px_fusion_tierra:
  assumes "i < alto hsv" "j < ancho hsv"
  shows "px (snd (fusion hsv img)) i j =
           px (mascara_tierra_color hsv) i j AND NOT (px (fst (fusion hsv img)) i j)"
proof -
  have forma: "alto (mascara_tierra_color hsv) = alto hsv"
    "ancho (mascara_tierra_color hsv) = ancho hsv"
    "alto (mascara_pasto_color hsv) = alto hsv"
    "ancho (mascara_pasto_color hsv) = ancho hsv"
    using assms
    by (simp_all add: mascara_tierra_color_def mascara_pasto_color_def Let_def
        forma_bitwise_or forma_inRange)
  show ?thesis
    using assms
    by (simp add: fusion_def Let_def px_bitwise_and px_bitwise_not forma forma_bitwise_and)
qed

text \<open>
  Claim C3, as amended. At every pixel the fused grass byte is the bitwise AND of the grass
  colour byte and the vegetation-index byte, and the fused soil byte is the AND of the soil
  colour byte with the complement of the fused grass byte. A pixel in the grass colour mask
  and in the vegetation-index mask is grass and not soil after fusion, whatever its soil
  colour byte. A pixel in both raw colour masks (grass colour and soil colour) whose index
  is not above the threshold is soil and not grass after fusion.
\<close>

theorem C3_fusion:
  assumes "i < alto hsv" "j < ancho hsv"
    and "alto img_corregida = alto hsv" "ancho img_corregida = ancho hsv"
  shows "px (fst (fusion hsv img_corregida)) i j =
           px (mascara_pasto_color hsv) i j AND px (mascara_vegetacion_vi img_corregida) i j
       \<and> px (snd (fusion hsv img_corregida)) i j =
           px (mascara_tierra_color hsv) i j AND NOT (px (fst (fusion hsv img_corregida)) i j)
       \<and> (px (mascara_pasto_color hsv) i j \<noteq> 0
             \<and> px (mascara_vegetacion_vi img_corregida) i j \<noteq> 0
           \<longrightarrow> px (fst (fusion hsv img_corregida)) i j \<noteq> 0
             \<and> px (snd (fusion hsv img_corregida)) i j = 0)
       \<and> (px (mascara_pasto_color hsv) i j \<noteq> 0 \<and> px (mascara_tierra_color hsv) i j \<noteq> 0
             \<and> px (mascara_vegetacion_vi img_corregida) i j = 0
           \<longrightarrow> px (fst (fusion hsv img_corregida)) i j = 0
             \<and> px (snd (fusion hsv img_corregida)) i j \<noteq> 0)"
proof -
  let ?pc = "px (mascara_pasto_color hsv) i j"
  let ?tc = "px (mascara_tierra_color hsv) i j"
  let ?vi = "px (mascara_vegetacion_vi img_corregida) i j"
  let ?pf = "px (fst (fusion hsv img_corregida)) i j"
  let ?tf = "px (snd (fusion hsv img_corregida)) i j"
  have pc: "?pc = 0 \<or> ?pc = 255"
    by (rule px_pasto_color_binaria [OF assms(1,2)])
  have tc: "?tc = 0 \<or> ?tc = 255"
    by (rule px_tierra_color_binaria [OF assms(1,2)])
  have vi: "?vi = 0 \<or> ?vi = 255"
    using assms by (intro px_vegetacion_vi_binaria) simp_all
  have pf: "?pf = ?pc AND ?vi"
    by (rule px_fusion_pasto [OF assms(1,2)])
  have tf: "?tf = ?tc AND NOT ?pf"
    by (rule px_fusion_tierra [OF assms(1,2)])
  have pf_bin: "?pf = 0 \<or> ?pf = 255"
    unfolding pf by (rule and_binaria(2) [OF pc vi])
  have grass: "?pc \<noteq> 0 \<and> ?vi \<noteq> 0 \<longrightarrow> ?pf \<noteq> 0 \<and> ?tf = 0"
    using and_binaria(1) [OF pc vi] and_not_binaria [OF tc pf_bin] pf tf by metis
  have soil: "?pc \<noteq> 0 \<and> ?tc \<noteq> 0 \<and> ?vi = 0 \<longrightarrow> ?pf = 0 \<and> ?tf \<noteq> 0"
    using and_binaria(1) [OF pc vi] and_not_binaria [OF tc pf_bin] pf tf by metis
  from pf tf grass soil show ?thesis by blast
qed

text \<open>
  The witness: a one-pixel image with hue 60, in the grass colour range, and a positive
  index is grass after fusion.
\<close>

theorem C3_fusion_witness:
  "px (mascara_pasto_color [[(60, 200, 200)]]) 0 0 = 255
   \<and> px (mascara_vegetacion_vi [[(50, 200, 100)]]) 0 0 = 255
   \<and> px (fst (fusion [[(60, 200, 200)]] [[(50, 200, 100)]])) 0 0 \<noteq> 0
   \<and> px (snd (fusion [[(60, 200, 200)]] [[(50, 200, 100)]])) 0 0 = 0"
proof -
  have pc: "px (mascara_pasto_color [[(60, 200, 200)]]) 0 0 = 255"
    by (simp add: mascara_pasto_color_def inRange_def en_rango_def tabla_def alto_def
        ancho_def px_def lower_green_def upper_green_def)
  have vi: "px (mascara_vegetacion_vi [[(50, 200, 100)]]) 0 0 = 255"
    by (simp add: mascara_vegetacion_vi_def umbral_vi_def vari_def a_float_def tabla_def
        alto_def ancho_def px_def)
  have pc0: "px (mascara_pasto_color [[(60, 200, 200)]]) 0 0 \<noteq> 0"
    and vi0: "px (mascara_vegetacion_vi [[(50, 200, 100)]]) 0 0 \<noteq> 0"
    by (simp_all add: pc vi)
  have forma: "0 < alto [[(60, 200, 200) :: pixel]]" "0 < ancho [[(60, 200, 200) :: pixel]]"
    "alto [[(50, 200, 100) :: pixel]] = alto [[(60, 200, 200) :: pixel]]"
    "ancho [[(50, 200, 100) :: pixel]] = ancho [[(60, 200, 200) :: pixel]]"
    by (simp_all add: alto_def ancho_def)
  from C3_fusion [OF forma] pc vi pc0 vi0 show ?thesis by blast
qed

text \<open>
  The claim as stated fails at a pixel of hue 25, which both colour ranges contain (the
  grass range starts at 25, the brown range ends at 25): with B, G, R = 60, 110, 120 its
  index is negative, so the pixel satisfies both raw colour masks and is soil, not grass,
  after fusion.
\<close>

theorem C3_contraejemplo:
  "mascara_pasto_color [[(25, 128, 100)]] = [[255]]
   \<and> mascara_tierra_color [[(25, 128, 100)]] = [[255]]
   \<and> fusion [[(25, 128, 100)]] [[(60, 110, 120)]] = ([[0]], [[255]])"
  by (simp add: fusion_def mascara_pasto_color_def mascara_tierra_color_def
      mascara_vegetacion_vi_def umbral_vi_def vari_def a_float_def inRange_def en_rango_def
      bitwise_and_def bitwise_or_def bitwise_not_def tabla_def alto_def ancho_def px_def
      lower_green_def upper_green_def lower_brown_def upper_brown_def lower_red1_def
      upper_red1_def lower_red2_def upper_red2_def Let_def)

section \<open>The overlay\<close>

lemma px_pintar:
  assumes "i < alto overlay" "j < ancho overlay"
  shows "px (pintar overlay mascara color) i j =
           (if px mascara i j \<noteq> 0 then color else px overlay i j)"
  using assms by (simp add: pintar_def px_tabla word_gt_0)

lemma forma_pintar:
  "alto (pintar overlay mascara color) = alto overlay"
  "0 < alto overlay \<Longrightarrow> ancho (pintar overlay mascara color) = ancho overlay"
  by (simp_all add: pintar_def alto_tabla ancho_tabla)

text \<open>
  Claim C9. The grass pixels are painted first and the soil pixels second on one canvas:
  a pixel of the canvas has the soil colour where the soil mask is not zero, else the grass
  colour where the grass mask is not zero, else it stays transparent. So a pixel that is
  not zero in both final masks has the soil colour, which is not the grass colour.
\<close>

theorem C9_prioridad_overlay:
  assumes "i < alto img" "j < ancho img"
  shows "px (crear_overlay img mascara_pasto_final mascara_tierra_final) i j =
           (if px mascara_tierra_final i j \<noteq> 0 then color_tierra
            else if px mascara_pasto_final i j \<noteq> 0 then color_pasto
            else (0, 0, 0, 0))
       \<and> (px mascara_pasto_final i j \<noteq> 0 \<and> px mascara_tierra_final i j \<noteq> 0
           \<longrightarrow> px (crear_overlay img mascara_pasto_final mascara_tierra_final) i j = color_tierra
             \<and> px (crear_overlay img mascara_pasto_final mascara_tierra_final) i j \<noteq> color_pasto)"
proof -
  have h: "0 < alto img" using assms(1) by simp
  have forma0: "alto (zeros4 (alto img) (ancho img)) = alto img"
    "ancho (zeros4 (alto img) (ancho img)) = ancho img"
    using h by (simp_all add: zeros4_def alto_tabla ancho_tabla)
  have cero: "px (zeros4 (alto img) (ancho img)) i j = (0, 0, 0, 0)"
    using assms by (simp add: zeros4_def px_tabla)
  have distintos: "color_tierra \<noteq> color_pasto"
    by (simp add: color_tierra_def color_pasto_def)
  show ?thesis
    using assms h distintos
    by (simp add: crear_overlay_def Let_def px_pintar forma_pintar forma0 cero)
qed

theorem C9_prioridad_overlay_witness:
  "px ([[200]] :: uint8 matriz) 0 0 \<noteq> 0 \<and> px ([[64]] :: uint8 matriz) 0 0 \<noteq> 0
   \<and> px (crear_overlay [[(10, 20, 30)]] [[200]] [[64]]) 0 0 = (120, 87, 120, 110)"
  using C9_prioridad_overlay [of 0 "[[(10, 20, 30)]]" 0 "[[200]]" "[[64]]"]
  by (simp add: alto_def ancho_def px_def color_tierra_def)

section \<open>The response\<close>

lemma length_b64encode: "length (b64encode bs) = 4 * ((length bs + 2) div 3)"
proof (induction bs rule: b64encode.induct)
  case (4 a b c resto)
  have "(length (a # b # c # resto) + 2) div 3 = Suc ((length resto + 2) div 3)"
    by simp
  with 4 show ?case
    by (simp add: Let_def)
qed (simp_all add: Let_def)

lemma length_data_uri: "length (data_uri bs) = 23 + 4 * ((length bs + 2) div 3)"
  by (simp add: data_uri_def length_b64encode)

lemma ensamblar_eq:
  "ensamblar cv t img =
     (if 1000000 < tamano cv t img 85 then respuesta_q cv t img 65 else respuesta_q cv t img 85)"
  by (simp add: ensamblar_def tamano_def respuesta_q_def fracciones_def imagen_final_def
      Let_def split: prod.splits)

lemma tamano_eq:
  "tamano cv t img q + length (data_uri (imencode_jpg cv q' (imagen_final cv img))) =
   tamano cv t img q' + length (data_uri (imencode_jpg cv q (imagen_final cv img)))"
  by (simp add: tamano_def respuesta_q_def json_dumps_def comillas_def split: prod.splits)

lemma procesar_imagen_Inr:
  assumes "decodificar cv s = Inr img"
  shows "procesar_imagen cv t s = Inr (ensamblar cv t img)"
  using assms by (simp add: procesar_imagen_def)

lemma tamano_cv_grande:
  "tamano (cv_grande n85 n65) t img q =
     105 + 4 * (((if q = 85 then n85 else n65) + 2) div 3)"
  by (simp add: tamano_def respuesta_q_def json_dumps_def comillas_def length_data_uri
      cv_grande_def case_prod_beta)

lemma decodificar_cv_grande: "decodificar (cv_grande n85 n65) s = Inr [[(0, 0, 0)]]"
  by (simp add: decodificar_def cv_grande_def)

lemma strip_x: "strip '' x'' = ''x''"
  by (simp add: strip_def es_espacio_def)

section \<open>Decoding errors\<close>

text \<open>
  Claim C6. When the payload cannot be decoded to bytes, or the bytes decode to no image,
  \<^verbatim>\<open>procesar_imagen\<close> raises a ValueError whose message starts with
  \<^verbatim>\<open>Error decodificando imagen: \<close> and returns no result; the loop catches it, writes one
  error block carrying that message on the standard error, nothing on the standard output,
  and goes on with the next line.
\<close>

theorem C6_error_decodificacion:
  assumes "no_decodifica cv s"
  shows "\<exists>m. (\<forall>t. procesar_imagen cv t s = Inl (ValueError (''Error decodificando imagen: '' @ m)))
           \<and> (\<forall>entrada t0 t1 t2 resto. strip entrada = s \<and> s \<noteq> [] \<longrightarrow>
                 main cv ((entrada, t0, t1, t2) # resto) =
                   Stderr [(''error'', Cadena (''Error procesando imagen: ''
                                                @ ''Error decodificando imagen: '' @ m)),
                           (''timestamp'', Numero (Flotante t1))]
                   # main cv resto)"
proof -
  from assms obtain m where
    m: "decodificar cv s = Inl (ValueError (''Error decodificando imagen: '' @ m))"
    by (auto simp: no_decodifica_def decodificar_def split: sum.splits option.splits)
  have "\<forall>t. procesar_imagen cv t s = Inl (ValueError (''Error decodificando imagen: '' @ m))"
    using m by (simp add: procesar_imagen_def)
  then show ?thesis
    by (intro exI [of _ m]) (simp add: main_paso_def Let_def)
qed

theorem C6_error_decodificacion_witness:
  "no_decodifica cv_nulo ''x''
   \<and> procesar_imagen cv_nulo 7 ''x'' =
       Inl (ValueError ''Error decodificando imagen: Incorrect padding'')
   \<and> main cv_nulo [('' x'', 1, 2, 3)] =
       [Stderr [(''error'', Cadena ''Error procesando imagen: Error decodificando imagen: Incorrect padding''),
                (''timestamp'', Numero (Flotante 2))]]"
proof -
  have h: "no_decodifica cv_nulo ''x''"
    by (simp add: no_decodifica_def cv_nulo_def)
  have p: "procesar_imagen cv_nulo 7 ''x'' =
             Inl (ValueError ''Error decodificando imagen: Incorrect padding'')"
    by (simp add: procesar_imagen_def decodificar_def cv_nulo_def)
  from C6_error_decodificacion [OF h] obtain m where
    m: "\<forall>t. procesar_imagen cv_nulo t ''x'' =
              Inl (ValueError (''Error decodificando imagen: '' @ m))"
    and l: "\<forall>entrada t0 t1 t2 resto. strip entrada = ''x'' \<and> ''x'' \<noteq> [] \<longrightarrow>
              main cv_nulo ((entrada, t0, t1, t2) # resto) =
                Stderr [(''error'', Cadena (''Error procesando imagen: ''
                                             @ ''Error decodificando imagen: '' @ m)),
                        (''timestamp'', Numero (Flotante t1))]
                # main cv_nulo resto"
    by blast
  from m p have "m = ''Incorrect padding''" by simp
  with l [rule_format, of "'' x''" 1 2 3 "[]"] h p show ?thesis
    by (simp add: strip_x)
qed

section \<open>The size budget\<close>

text \<open>
  Claim C10. The size of the JSON text is tested once, with the overlay at quality 85.
  When it is above 1,000,000 the overlay is encoded again at quality 65 and that response
  is returned without a second test: if its text is still above 1,000,000 it is returned
  all the same, as a result and not as an error, and the loop writes it on the standard
  output.
\<close>

theorem C10_una_sola_comprobacion:
  assumes "decodificar cv s = Inr img"
    and "1000000 < tamano cv t img 85" and "1000000 < tamano cv t img 65"
  shows "procesar_imagen cv t s = Inr (respuesta_q cv t img 65)
       \<and> 1000000 < length (json_dumps (repr cv) (respuesta_q cv t img 65))
       \<and> (\<forall>entrada t0 t2. strip entrada = s \<and> s \<noteq> [] \<longrightarrow>
             main_paso cv entrada t0 t t2 =
               Stdout (asignar ''tiempo_procesamiento''
                         (Numero (py_round (fl cv) (Flotante (fl cv (t2 - t0))) 3))
                         (respuesta_q cv t img 65)))"
  using assms
  by (simp add: procesar_imagen_def ensamblar_eq main_paso_def Let_def tamano_def)

theorem C10_una_sola_comprobacion_witness:
  "decodificar (cv_grande 900000 800000) ''x'' = Inr [[(0, 0, 0)]]
   \<and> tamano (cv_grande 900000 800000) 5 [[(0, 0, 0)]] 85 = 1200105
   \<and> tamano (cv_grande 900000 800000) 5 [[(0, 0, 0)]] 65 = 1066773
   \<and> procesar_imagen (cv_grande 900000 800000) 5 ''x'' =
       Inr (respuesta_q (cv_grande 900000 800000) 5 [[(0, 0, 0)]] 65)
   \<and> main_paso (cv_grande 900000 800000) '' x'' 4 5 6 =
       Stdout (asignar ''tiempo_procesamiento''
                 (Numero (py_round (fl (cv_grande 900000 800000))
                            (Flotante (fl (cv_grande 900000 800000) (6 - 4))) 3))
                 (respuesta_q (cv_grande 900000 800000) 5 [[(0, 0, 0)]] 65))"
proof -
  have d: "decodificar (cv_grande 900000 800000) ''x'' = Inr [[(0, 0, 0)]]"
    by (rule decodificar_cv_grande)
  have a: "1000000 < tamano (cv_grande 900000 800000) 5 [[(0, 0, 0)]] 85"
    and b: "1000000 < tamano (cv_grande 900000 800000) 5 [[(0, 0, 0)]] 65"
    by (simp_all add: tamano_cv_grande)
  from C10_una_sola_comprobacion [OF d a b] show ?thesis
    by (simp add: d tamano_cv_grande strip_x)
qed

text \<open>
  Claim C7, as amended. When the JSON text with the overlay at quality 85 is longer than
  1,000,000, the overlay field of the returned response is the data URI of the quality 65
  encoding of the same composite image; the returned text is shorter than the quality 85
  text exactly when the quality 65 encoding has fewer groups of three bytes than the
  quality 85 encoding, which the program does not test. When the quality 85 text is within
  the budget, the response with the quality 85 overlay is returned unchanged.
\<close>

theorem C7_presupuesto:
  assumes "decodificar cv s = Inr img"
  shows "(1000000 < tamano cv t img 85 \<longrightarrow>
            procesar_imagen cv t s = Inr (respuesta_q cv t img 65)
            \<and> map_of (respuesta_q cv t img 65) ''overlay_image'' =
                Some (Cadena (data_uri (imencode_jpg cv 65 (imagen_final cv img))))
            \<and> (tamano cv t img 65 < tamano cv t img 85) =
                ((length (imencode_jpg cv 65 (imagen_final cv img)) + 2) div 3
                 < (length (imencode_jpg cv 85 (imagen_final cv img)) + 2) div 3))
       \<and> (tamano cv t img 85 \<le> 1000000 \<longrightarrow>
            procesar_imagen cv t s = Inr (respuesta_q cv t img 85)
            \<and> map_of (respuesta_q cv t img 85) ''overlay_image'' =
                Some (Cadena (data_uri (imencode_jpg cv 85 (imagen_final cv img)))))"
proof -
  have campo: "map_of (respuesta_q cv t img q) ''overlay_image'' =
                 Some (Cadena (data_uri (imencode_jpg cv q (imagen_final cv img))))" for q
    by (simp add: respuesta_q_def case_prod_beta)
  have tam: "(tamano cv t img 65 < tamano cv t img 85) =
               ((length (imencode_jpg cv 65 (imagen_final cv img)) + 2) div 3
                < (length (imencode_jpg cv 85 (imagen_final cv img)) + 2) div 3)"
    using tamano_eq [of cv t img 65 85] unfolding length_data_uri by arith
  show ?thesis
    using assms campo tam by (simp add: procesar_imagen_def ensamblar_eq)
qed

text \<open>
  The witness: an encoder that returns 900,000 bytes at quality 85 and 300,000 at quality
  65 (over the budget, and the text shrinks), and one that returns 30 and 20 bytes (within
  the budget).
\<close>

theorem C7_presupuesto_witness:
  "tamano (cv_grande 900000 300000) 5 [[(0, 0, 0)]] 85 = 1200105
   \<and> procesar_imagen (cv_grande 900000 300000) 5 ''x'' =
       Inr (respuesta_q (cv_grande 900000 300000) 5 [[(0, 0, 0)]] 65)
   \<and> tamano (cv_grande 900000 300000) 5 [[(0, 0, 0)]] 65 = 400105
   \<and> tamano (cv_grande 30 20) 5 [[(0, 0, 0)]] 85 = 145
   \<and> procesar_imagen (cv_grande 30 20) 5 ''x'' =
       Inr (respuesta_q (cv_grande 30 20) 5 [[(0, 0, 0)]] 85)"
  using C7_presupuesto [OF decodificar_cv_grande [of 900000 300000 "''x''"], where t = 5]
    C7_presupuesto [OF decodificar_cv_grande [of 30 20 "''x''"], where t = 5]
  by (simp add: tamano_cv_grande)

text \<open>
  The claim as stated fails when the two encodings have the same number of groups of three
  bytes: with 750,000 bytes at quality 85 and 749,999 at quality 65 the quality 85 text is
  over the budget, the overlay is replaced, and the returned text has the same length.
\<close>

theorem C7_contraejemplo:
  "1000000 < tamano (cv_grande 750000 749999) 5 [[(0, 0, 0)]] 85
   \<and> procesar_imagen (cv_grande 750000 749999) 5 ''x'' =
       Inr (respuesta_q (cv_grande 750000 749999) 5 [[(0, 0, 0)]] 65)
   \<and> length (json_dumps (repr (cv_grande 750000 749999))
               (respuesta_q (cv_grande 750000 749999) 5 [[(0, 0, 0)]] 65)) =
     length (json_dumps (repr (cv_grande 750000 749999))
               (respuesta_q (cv_grande 750000 749999) 5 [[(0, 0, 0)]] 85))"
  by (simp add: procesar_imagen_def decodificar_cv_grande ensamblar_eq tamano_cv_grande
      tamano_def [symmetric])

section \<open>Shapes and counts\<close>

lemma forma_tabla:
  "alto (tabla (alto m) (ancho m) f) = alto m"
  "ancho (tabla (alto m) (ancho m) f) = ancho m"
proof -
  show "alto (tabla (alto m) (ancho m) f) = alto m"
    by (rule alto_tabla)
  have vacia: "alto m = 0 \<Longrightarrow> ancho m = 0"
    by (simp add: alto_def ancho_def)
  have "ancho (tabla (alto m) (ancho m) f) = (if alto m = 0 then 0 else ancho m)"
    by (rule ancho_tabla)
  with vacia show "ancho (tabla (alto m) (ancho m) f) = ancho m"
    by simp
qed

lemma formas:
  "alto (bitwise_and a b) = alto a" "ancho (bitwise_and a b) = ancho a"
  "alto (bitwise_or a b) = alto a" "ancho (bitwise_or a b) = ancho a"
  "alto (bitwise_not a) = alto a" "ancho (bitwise_not a) = ancho a"
  "alto (inRange src lo hi) = alto src" "ancho (inRange src lo hi) = ancho src"
  "alto (dilate a) = alto a" "ancho (dilate a) = ancho a"
  "alto (erode a) = alto a" "ancho (erode a) = ancho a"
  "alto (GaussianBlur a) = alto a" "ancho (GaussianBlur a) = ancho a"
  by (simp_all add: bitwise_and_def bitwise_or_def bitwise_not_def inRange_def dilate_def
      erode_def GaussianBlur_def forma_tabla)

lemma forma_morphologyEx:
  "alto (morphologyEx_OPEN a) = alto a" "ancho (morphologyEx_OPEN a) = ancho a"
  "alto (morphologyEx_CLOSE a) = alto a" "ancho (morphologyEx_CLOSE a) = ancho a"
  by (simp_all add: morphologyEx_OPEN_def morphologyEx_CLOSE_def formas)

lemma forma_borrar_si_pequeno:
  "alto (borrar_si_pequeno a labels stats i m) = alto m"
  "ancho (borrar_si_pequeno a labels stats i m) = ancho m"
  by (simp_all add: borrar_si_pequeno_def forma_tabla)

lemma forma_fold_borrar:
  "alto (fold (borrar_si_pequeno a labels stats) is m) = alto m
   \<and> ancho (fold (borrar_si_pequeno a labels stats) is m) = ancho m"
  by (induction "is" arbitrary: m) (simp_all add: forma_borrar_si_pequeno)

lemma forma_eliminar_pequenos_objetos:
  "alto (eliminar_pequenos_objetos m a) = alto m"
  "ancho (eliminar_pequenos_objetos m a) = ancho m"
  by (simp_all add: eliminar_pequenos_objetos_def forma_fold_borrar split: prod.splits)

lemma sum_list_acotada:
  fixes g :: "'a \<Rightarrow> nat"
  assumes "\<And>x. x \<in> set xs \<Longrightarrow> g x \<le> w"
  shows "sum_list (map g xs) \<le> length xs * w"
  using assms
proof (induction xs)
  case Nil
  then show ?case by simp
next
  case (Cons x xs)
  have "g x \<le> w" by (rule Cons.prems) simp
  moreover have "sum_list (map g xs) \<le> length xs * w"
    by (rule Cons.IH) (simp add: Cons.prems)
  ultimately show ?case by simp
qed

lemma countNonZero_tabla: "countNonZero (tabla h w f) \<le> h * w"
proof -
  have "sum_list (map (\<lambda>fila. length (filter (\<lambda>v. v \<noteq> 0) fila))
                   (map (\<lambda>i. map (\<lambda>j. f i j) [0..<w]) [0..<h]))
        \<le> length (map (\<lambda>i. map (\<lambda>j. f i j) [0..<w]) [0..<h]) * w"
  proof (rule sum_list_acotada)
    fix fila
    assume "fila \<in> set (map (\<lambda>i. map (\<lambda>j. f i j) [0..<w]) [0..<h])"
    then have "length fila = w" by auto
    moreover have "length (filter (\<lambda>v. v \<noteq> 0) fila) \<le> length fila"
      by (rule length_filter_le)
    ultimately show "length (filter (\<lambda>v. v \<noteq> 0) fila) \<le> w" by simp
  qed
  then show ?thesis by (simp add: countNonZero_def tabla_def)
qed

lemma forma_fusion:
  "alto (fst (fusion hsv img)) = alto hsv" "ancho (fst (fusion hsv img)) = ancho hsv"
  "alto (snd (fusion hsv img)) = alto hsv" "ancho (snd (fusion hsv img)) = ancho hsv"
  by (simp_all add: fusion_def Let_def mascara_pasto_color_def mascara_tierra_color_def
      formas)

lemma conteo_limpiar:
  "countNonZero (fst (limpiar f p t n)) \<le> alto p * ancho p"
  "countNonZero (snd (limpiar f p t n)) \<le> alto t * ancho t"
proof -
  obtain x where
    x: "fst (limpiar f p t n) = GaussianBlur x" "alto x = alto p" "ancho x = ancho p"
    by (simp add: limpiar_def Let_def forma_eliminar_pequenos_objetos formas
        forma_morphologyEx)
  show "countNonZero (fst (limpiar f p t n)) \<le> alto p * ancho p"
    using countNonZero_tabla [of "alto x" "ancho x" "blur_px x"]
    by (simp add: x GaussianBlur_def)
  obtain y z where
    y: "snd (limpiar f p t n) = bitwise_and (GaussianBlur y) z" "alto y = alto t"
      "ancho y = ancho t"
    by (simp add: limpiar_def Let_def forma_eliminar_pequenos_objetos formas
        forma_morphologyEx)
  show "countNonZero (snd (limpiar f p t n)) \<le> alto t * ancho t"
    using countNonZero_tabla [of "alto (GaussianBlur y)" "ancho (GaussianBlur y)"
        "\<lambda>i j. px (GaussianBlur y) i j AND px z i j"]
    by (simp add: y bitwise_and_def formas)
qed

lemma conteo_mascaras_finales:
  assumes "conserva_forma cv img"
  shows "countNonZero (fst (mascaras_finales cv img)) \<le> alto img * ancho img"
    and "countNonZero (snd (mascaras_finales cv img)) \<le> alto img * ancho img"
proof -
  let ?c = "corregir cv img"
  let ?h = "a_hsv cv ?c"
  have m: "mascaras_finales cv img =
             limpiar (fl cv) (fst (fusion ?h ?c)) (snd (fusion ?h ?c))
               (alto img * ancho img)"
    by (simp add: mascaras_finales_def Let_def case_prod_beta)
  from assms have f: "alto ?h = alto img" "ancho ?h = ancho img"
    by (simp_all add: conserva_forma_def)
  show "countNonZero (fst (mascaras_finales cv img)) \<le> alto img * ancho img"
    using conteo_limpiar(1) [of "fl cv" "fst (fusion ?h ?c)" "snd (fusion ?h ?c)"
        "alto img * ancho img"]
    by (simp add: m forma_fusion f)
  show "countNonZero (snd (mascaras_finales cv img)) \<le> alto img * ancho img"
    using conteo_limpiar(2) [of "fl cv" "fst (fusion ?h ?c)" "snd (fusion ?h ?c)"
        "alto img * ancho img"]
    by (simp add: m forma_fusion f)
qed

section \<open>Percentages and rounding\<close>

lemma redondeo_par_ge:
  assumes "of_int a \<le> y"
  shows "a \<le> redondeo_par y"
proof -
  have "a \<le> \<lfloor>y\<rfloor>" using assms by (simp add: le_floor_iff)
  then show ?thesis by (simp add: redondeo_par_def Let_def)
qed

lemma redondeo_par_le:
  assumes "y \<le> of_int b"
  shows "redondeo_par y \<le> b"
proof (cases "y - of_int \<lfloor>y\<rfloor> < 1 / 2")
  case True
  have "\<lfloor>y\<rfloor> \<le> b" using assms by (simp add: floor_le_iff)
  with True show ?thesis by (simp add: redondeo_par_def Let_def)
next
  case False
  then have "of_int \<lfloor>y\<rfloor> < y" by simp
  with assms have "(of_int \<lfloor>y\<rfloor> :: rat) < of_int b" by simp
  then have "\<lfloor>y\<rfloor> + 1 \<le> b" by simp
  then show ?thesis by (simp add: redondeo_par_def Let_def)
qed

lemma redondeo_fiel_cotas:
  assumes "redondeo_fiel f"
  shows "0 \<le> x \<Longrightarrow> 0 \<le> f x" "x \<le> 1 \<Longrightarrow> f x \<le> 1" "x \<le> 100 \<Longrightarrow> f x \<le> 100"
proof -
  from assms have m: "\<And>x y. x \<le> y \<Longrightarrow> f x \<le> f y" and c: "f 0 = 0" "f 1 = 1" "f 100 = 100"
    by (simp_all add: redondeo_fiel_def)
  show "0 \<le> x \<Longrightarrow> 0 \<le> f x" using m [of 0 x] c by simp
  show "x \<le> 1 \<Longrightarrow> f x \<le> 1" using m [of x 1] c by simp
  show "x \<le> 100 \<Longrightarrow> f x \<le> 100" using m [of x 100] c by simp
qed

lemma py_round_cotas:
  assumes "redondeo_fiel f" and "0 \<le> valor x" "valor x \<le> 100"
  shows "0 \<le> valor (py_round f x 2) \<and> valor (py_round f x 2) \<le> 100"
proof (cases x)
  case (Entero n)
  with assms show ?thesis by simp
next
  case (Flotante q)
  let ?n = "redondeo_par (q * 10 ^ 2)"
  from Flotante assms have q: "of_int 0 \<le> q * 10 ^ 2" "q * 10 ^ 2 \<le> of_int 10000"
    by simp_all
  have "0 \<le> ?n" by (rule redondeo_par_ge [OF q(1)])
  moreover have "?n \<le> 10000" by (rule redondeo_par_le [OF q(2)])
  ultimately have "(0 :: rat) \<le> of_int ?n" "(of_int ?n :: rat) \<le> 10000"
    by simp_all
  then have r: "(0 :: rat) \<le> of_int ?n / 10 ^ 2" "(of_int ?n :: rat) / 10 ^ 2 \<le> 100"
    by simp_all
  have "0 \<le> f (of_int ?n / 10 ^ 2)"
    by (rule redondeo_fiel_cotas(1) [OF assms(1) r(1)])
  moreover have "f (of_int ?n / 10 ^ 2) \<le> 100"
    by (rule redondeo_fiel_cotas(3) [OF assms(1) r(2)])
  ultimately show ?thesis using Flotante by simp
qed

lemma resta_cota:
  assumes "redondeo_fiel f" and "valor x \<le> 100" "0 \<le> valor y"
  shows "valor (resta f x y) \<le> 100"
proof -
  from assms(2,3) have d: "valor x - valor y \<le> 100" by simp
  then have "f (valor x - valor y) \<le> 100"
    by (rule redondeo_fiel_cotas(3) [OF assms(1)])
  with d show ?thesis by (cases x; cases y) simp_all
qed

lemma max0_cotas:
  assumes "valor x \<le> 100"
  shows "0 \<le> valor (max0 x) \<and> valor (max0 x) \<le> 100"
  using assms by (simp add: max0_def)

lemma porcentaje_mascara_cotas:
  assumes "redondeo_fiel f" and "countNonZero m \<le> n"
  shows "0 \<le> valor (porcentaje_mascara f m n) \<and> valor (porcentaje_mascara f m n) \<le> 100"
proof (cases "n = 0")
  case True
  then show ?thesis by (simp add: porcentaje_mascara_def)
next
  case False
  let ?c = "of_nat (countNonZero m) / of_nat n :: rat"
  from assms(2) have "(of_nat (countNonZero m) :: rat) \<le> of_nat n" by simp
  moreover from False have "(0 :: rat) < of_nat n" by simp
  ultimately have c1: "?c \<le> 1" by (simp add: pos_divide_le_eq)
  have c0: "0 \<le> ?c" by simp
  have "0 \<le> f ?c" by (rule redondeo_fiel_cotas(1) [OF assms(1) c0])
  moreover have "f ?c \<le> 1" by (rule redondeo_fiel_cotas(2) [OF assms(1) c1])
  ultimately have d: "0 \<le> f ?c * 100" "f ?c * 100 \<le> 100" by simp_all
  have "0 \<le> f (f ?c * 100)" by (rule redondeo_fiel_cotas(1) [OF assms(1) d(1)])
  moreover have "f (f ?c * 100) \<le> 100" by (rule redondeo_fiel_cotas(3) [OF assms(1) d(2)])
  ultimately show ?thesis using False by (simp add: porcentaje_mascara_def)
qed

lemma fracciones_eq:
  "fracciones cv img =
     (porcentaje_mascara (fl cv) (fst (mascaras_finales cv img)) (alto img * ancho img),
      porcentaje_mascara (fl cv) (snd (mascaras_finales cv img)) (alto img * ancho img),
      max0 (resta (fl cv)
              (resta (fl cv) (Entero 100)
                 (porcentaje_mascara (fl cv) (fst (mascaras_finales cv img))
                    (alto img * ancho img)))
              (porcentaje_mascara (fl cv) (snd (mascaras_finales cv img))
                 (alto img * ancho img))))"
  by (simp add: fracciones_def porcentajes_def Let_def case_prod_beta)

lemma fracciones_cotas:
  assumes "conserva_forma cv img" and "redondeo_fiel (fl cv)"
    and "fracciones cv img = (a, b, c)"
  shows "0 \<le> valor a \<and> valor a \<le> 100" "0 \<le> valor b \<and> valor b \<le> 100"
    "0 \<le> valor c \<and> valor c \<le> 100"
proof -
  let ?n = "alto img * ancho img"
  from assms(3) have a: "a = porcentaje_mascara (fl cv) (fst (mascaras_finales cv img)) ?n"
    and b: "b = porcentaje_mascara (fl cv) (snd (mascaras_finales cv img)) ?n"
    and c: "c = max0 (resta (fl cv) (resta (fl cv) (Entero 100) a) b)"
    by (auto simp: fracciones_eq)
  show ca: "0 \<le> valor a \<and> valor a \<le> 100"
    unfolding a
    by (rule porcentaje_mascara_cotas [OF assms(2) conteo_mascaras_finales(1) [OF assms(1)]])
  show cb: "0 \<le> valor b \<and> valor b \<le> 100"
    unfolding b
    by (rule porcentaje_mascara_cotas [OF assms(2) conteo_mascaras_finales(2) [OF assms(1)]])
  have "valor (resta (fl cv) (Entero 100) a) \<le> 100"
    using ca resta_cota [OF assms(2), of "Entero 100" a] by simp
  then have "valor (resta (fl cv) (resta (fl cv) (Entero 100) a) b) \<le> 100"
    using cb resta_cota [OF assms(2), of "resta (fl cv) (Entero 100) a" b] by simp
  then show "0 \<le> valor c \<and> valor c \<le> 100"
    unfolding c by (rule max0_cotas)
qed

section \<open>The pipeline on one black pixel\<close>

lemma inicial_cero: "tabla (Suc 0) (Suc 0) (etiqueta_inicial [[0]]) = [[0]]"
  by (simp add: tabla_def etiqueta_inicial_def px_def)

lemma paso_cero: "etiquetar_paso [[0]] = [[0]]"
  by (simp add: etiquetar_paso_def tabla_def alto_def ancho_def etiquetar_px_def px_def)

lemma numerar_cero: "tabla (Suc 0) (Suc 0) (numerar [] [[0]]) = [[0]]"
  by (simp add: tabla_def numerar_def px_def)

lemma cc_cero: "connectedComponentsWithStats [[0]] = (1, [[0]], [1])"
  by (simp add: connectedComponentsWithStats_def Let_def alto_def ancho_def inicial_cero
      paso_cero numerar_cero)

lemma eliminar_cero: "eliminar_pequenos_objetos [[0]] min_area = [[0]]"
  by (simp add: eliminar_pequenos_objetos_def cc_cero)

lemma erode_cero: "erode [[0]] = [[0]]"
  by (simp add: erode_def erode_px_def tabla_def ventana_def alto_def ancho_def px_def)

lemma dilate_cero: "dilate [[0]] = [[0]]"
  by (simp add: dilate_def dilate_px_def tabla_def ventana_def alto_def ancho_def px_def)

lemma blur_cero: "GaussianBlur [[0]] = [[0]]"
  by (simp add: GaussianBlur_def blur_px_def nucleo5_def tabla_def alto_def ancho_def px_def
      reflejar_def)

lemma limpiar_cero: "limpiar f [[0]] [[0]] n = ([[0]], [[0]])"
  by (simp add: limpiar_def Let_def morphologyEx_OPEN_def morphologyEx_CLOSE_def erode_cero
      dilate_cero blur_cero eliminar_cero bitwise_and_def bitwise_not_def tabla_def alto_def
      ancho_def px_def)

lemma fusion_negro: "fusion [[(0, 0, 0)]] [[(0, 0, 0)]] = ([[0]], [[0]])"
  by (simp add: fusion_def mascara_pasto_color_def mascara_tierra_color_def
      mascara_vegetacion_vi_def umbral_vi_def vari_def a_float_def inRange_def en_rango_def
      bitwise_and_def bitwise_or_def bitwise_not_def tabla_def alto_def ancho_def px_def
      lower_green_def upper_green_def lower_brown_def upper_brown_def lower_red1_def
      upper_red1_def lower_red2_def upper_red2_def Let_def)

lemma mascaras_negro:
  assumes "corregir cv = (\<lambda>img. img)" "a_hsv cv = (\<lambda>img. img)"
  shows "mascaras_finales cv [[(0, 0, 0)]] = ([[0]], [[0]])"
  by (simp add: mascaras_finales_def assms fusion_negro limpiar_cero)

lemma fracciones_negro:
  assumes "corregir cv = (\<lambda>img. img)" "a_hsv cv = (\<lambda>img. img)" "fl cv = (\<lambda>x. x)"
  shows "fracciones cv [[(0, 0, 0)]] = (Flotante 0, Flotante 0, Flotante 100)"
  by (simp add: fracciones_eq mascaras_negro [OF assms(1,2)] assms(3) porcentaje_mascara_def
      countNonZero_def alto_def ancho_def max0_def)

lemma redondeo_par_ejemplos: "redondeo_par 0 = 0" "redondeo_par 10000 = 10000"
  by (simp_all add: redondeo_par_def)

lemma py_round_exacto:
  "py_round (\<lambda>x. x) (Flotante 0) 2 = Flotante 0"
  "py_round (\<lambda>x. x) (Flotante 100) 2 = Flotante 100"
  "py_round (\<lambda>x. x) (Flotante 2) 3 = Flotante 2"
  by (simp_all add: redondeo_par_def)

lemma cv_grande_campos:
  "corregir (cv_grande n85 n65) = (\<lambda>img. img)" "a_hsv (cv_grande n85 n65) = (\<lambda>img. img)"
  "fl (cv_grande n85 n65) = (\<lambda>x. x)"
  "imencode_jpg (cv_grande n85 n65) q im = replicate (if q = 85 then n85 else n65) 0"
  by (simp_all add: cv_grande_def)

lemma cv_reloj_campos:
  "corregir cv_reloj = (\<lambda>img. img)" "a_hsv cv_reloj = (\<lambda>img. img)"
  "fl cv_reloj = (\<lambda>x. x)"
  "imencode_jpg cv_reloj q im = replicate (if q = 85 then 749913 else 500000) 0"
  "repr cv_reloj (Flotante 0) = ''0.0''" "repr cv_reloj (Flotante 100) = ''0.0''"
  "repr cv_reloj (Flotante (6800000001 / 4)) = ''1700000000.25''"
  "repr cv_reloj (Flotante (27200000001 / 16)) = ''1700000000.0625''"
  by (simp_all add: cv_reloj_def)

lemma decodificar_cv_reloj: "decodificar cv_reloj s = Inr [[(0, 0, 0)]]"
  by (simp add: decodificar_def cv_reloj_def)

lemma conserva_forma_cv_grande: "conserva_forma (cv_grande n85 n65) img"
  by (simp add: conserva_forma_def cv_grande_campos)

lemma redondeo_fiel_id: "redondeo_fiel (\<lambda>x. x)"
  by (simp add: redondeo_fiel_def)

section \<open>The fields of the result\<close>

text \<open>
  Claim C8, as amended. A successful round of the loop writes a dictionary with exactly the
  keys \<^verbatim>\<open>pasto\<close>, \<^verbatim>\<open>tierra\<close>, \<^verbatim>\<open>otros\<close>, \<^verbatim>\<open>overlay_image\<close>, \<^verbatim>\<open>timestamp\<close> and
  \<^verbatim>\<open>tiempo_procesamiento\<close>, in this order. The first three are the grass, soil and other
  fractions rounded to two decimal places, where the grass and soil fractions are the
  percentages of pixels that are not zero in the final grass and soil masks and the other
  fraction is \<^verbatim>\<open>max(0, 100 - grass - soil)\<close>; each of the three written numbers lies
  between 0 and 100. The overlay is the text \<^verbatim>\<open>data:image/jpeg;base64,\<close> followed by the
  base64 text of the JPEG of the composite image, at quality 65 when the text with the
  quality 85 overlay is longer than 1,000,000 and at quality 85 otherwise. The timestamp
  is the reading of the clock, and the duration is the difference of two readings rounded
  to three decimal places.
\<close>

theorem C8_campos_resultado:
  assumes "decodificar cv (strip entrada) = Inr img" and "strip entrada \<noteq> []"
    and "conserva_forma cv img" and "redondeo_fiel (fl cv)"
    and "fracciones cv img = (a, b, c)"
  shows "main_paso cv entrada t0 t1 t2 =
           Stdout [(''pasto'', Numero (py_round (fl cv) a 2)),
                   (''tierra'', Numero (py_round (fl cv) b 2)),
                   (''otros'', Numero (py_round (fl cv) c 2)),
                   (''overlay_image'',
                    Cadena (''data:image/jpeg;base64,''
                            @ b64encode (imencode_jpg cv
                                           (if 1000000 < tamano cv t1 img 85 then 65 else 85)
                                           (imagen_final cv img)))),
                   (''timestamp'', Numero (Flotante t1)),
                   (''tiempo_procesamiento'',
                    Numero (py_round (fl cv) (Flotante (fl cv (t2 - t0))) 3))]
       \<and> a = porcentaje_mascara (fl cv) (fst (mascaras_finales cv img)) (alto img * ancho img)
       \<and> b = porcentaje_mascara (fl cv) (snd (mascaras_finales cv img)) (alto img * ancho img)
       \<and> c = max0 (resta (fl cv) (resta (fl cv) (Entero 100) a) b)
       \<and> 0 \<le> valor (py_round (fl cv) a 2) \<and> valor (py_round (fl cv) a 2) \<le> 100
       \<and> 0 \<le> valor (py_round (fl cv) b 2) \<and> valor (py_round (fl cv) b 2) \<le> 100
       \<and> 0 \<le> valor (py_round (fl cv) c 2) \<and> valor (py_round (fl cv) c 2) \<le> 100"
proof -
  define q :: nat where "q = (if 1000000 < tamano cv t1 img 85 then 65 else 85)"
  have r: "ensamblar cv t1 img = respuesta_q cv t1 img q"
    by (simp add: ensamblar_eq q_def)
  have m: "main_paso cv entrada t0 t1 t2 =
             Stdout [(''pasto'', Numero (py_round (fl cv) a 2)),
                     (''tierra'', Numero (py_round (fl cv) b 2)),
                     (''otros'', Numero (py_round (fl cv) c 2)),
                     (''overlay_image'',
                      Cadena (''data:image/jpeg;base64,''
                              @ b64encode (imencode_jpg cv q (imagen_final cv img)))),
                     (''timestamp'', Numero (Flotante t1)),
                     (''tiempo_procesamiento'',
                      Numero (py_round (fl cv) (Flotante (fl cv (t2 - t0))) 3))]"
    using assms(1,2)
    by (simp add: main_paso_def Let_def procesar_imagen_def r respuesta_q_def assms(5)
        data_uri_def)
  from assms(5) have e: "a = porcentaje_mascara (fl cv) (fst (mascaras_finales cv img))
                               (alto img * ancho img)"
    "b = porcentaje_mascara (fl cv) (snd (mascaras_finales cv img)) (alto img * ancho img)"
    "c = max0 (resta (fl cv) (resta (fl cv) (Entero 100) a) b)"
    by (auto simp: fracciones_eq)
  note cotas = fracciones_cotas [OF assms(3,4,5)]
  have ra: "0 \<le> valor (py_round (fl cv) a 2) \<and> valor (py_round (fl cv) a 2) \<le> 100"
    using cotas(1) by (intro py_round_cotas [OF assms(4)]) simp_all
  have rb: "0 \<le> valor (py_round (fl cv) b 2) \<and> valor (py_round (fl cv) b 2) \<le> 100"
    using cotas(2) by (intro py_round_cotas [OF assms(4)]) simp_all
  have rc: "0 \<le> valor (py_round (fl cv) c 2) \<and> valor (py_round (fl cv) c 2) \<le> 100"
    using cotas(3) by (intro py_round_cotas [OF assms(4)]) simp_all
  from m e ra rb rc show ?thesis
    unfolding q_def by blast
qed

text \<open>
  The witness: one black pixel is no grass, no soil and all other; the encoder returns 30
  bytes.
\<close>

theorem C8_campos_resultado_witness:
  "decodificar (cv_grande 30 20) (strip '' x'') = Inr [[(0, 0, 0)]]
   \<and> fracciones (cv_grande 30 20) [[(0, 0, 0)]] = (Flotante 0, Flotante 0, Flotante 100)
   \<and> main_paso (cv_grande 30 20) '' x'' 4 5 6 =
       Stdout [(''pasto'', Numero (Flotante 0)), (''tierra'', Numero (Flotante 0)),
               (''otros'', Numero (Flotante 100)),
               (''overlay_image'',
                Cadena (''data:image/jpeg;base64,'' @ b64encode (replicate 30 0))),
               (''timestamp'', Numero (Flotante 5)),
               (''tiempo_procesamiento'', Numero (Flotante 2))]"
proof -
  have d: "decodificar (cv_grande 30 20) (strip '' x'') = Inr [[(0, 0, 0)]]"
    by (rule decodificar_cv_grande)
  have n: "strip '' x'' \<noteq> []"
    by (simp add: strip_x)
  have c: "conserva_forma (cv_grande 30 20) [[(0, 0, 0)]]"
    by (rule conserva_forma_cv_grande)
  have f: "redondeo_fiel (fl (cv_grande 30 20))"
    by (simp add: cv_grande_campos redondeo_fiel_id)
  have p: "fracciones (cv_grande 30 20) [[(0, 0, 0)]] = (Flotante 0, Flotante 0, Flotante 100)"
    by (rule fracciones_negro [OF cv_grande_campos(1,2,3)])
  have q: "(if 1000000 < tamano (cv_grande 30 20) 5 [[(0, 0, 0)]] 85 then 65 else 85) = (85 :: nat)"
    by (simp add: tamano_cv_grande)
  have e: "(6 :: rat) - 4 = 2" by simp
  note m = C8_campos_resultado [OF d n c f p, of 4 5 6, THEN conjunct1]
  show ?thesis
    unfolding m q cv_grande_campos py_round_exacto e
    using d p by simp
qed

text \<open>
  The claim as stated names the fields \<^verbatim>\<open>grass_fraction\<close>, \<^verbatim>\<open>soil_fraction\<close>,
  \<^verbatim>\<open>other_fraction\<close> and \<^verbatim>\<open>processing_duration\<close>; the dictionary that is written has
  none of them.
\<close>

theorem C8_contraejemplo:
  "(case main_paso (cv_grande 30 20) '' x'' 4 5 6 of
      Stdout r \<Rightarrow>
        map fst r = [''pasto'', ''tierra'', ''otros'', ''overlay_image'', ''timestamp'',
                     ''tiempo_procesamiento'']
        \<and> map_of r ''grass_fraction'' = None \<and> map_of r ''soil_fraction'' = None
        \<and> map_of r ''other_fraction'' = None \<and> map_of r ''processing_duration'' = None
    | _ \<Rightarrow> False)"
  by (simp add: main_paso_def Let_def strip_x procesar_imagen_def decodificar_cv_grande
      ensamblar_eq tamano_cv_grande respuesta_q_def case_prod_beta)

section \<open>Two runs on the same payload\<close>

lemma fracciones_de_respuesta_q:
  "fracciones_de (respuesta_q cv t img q) =
     (case fracciones cv img of
        (a, b, c) \<Rightarrow> [Some (Numero (py_round (fl cv) a 2)), Some (Numero (py_round (fl cv) b 2)),
                      Some (Numero (py_round (fl cv) c 2))])"
  by (simp add: fracciones_de_def respuesta_q_def case_prod_beta)

lemma fracciones_de_ensamblar:
  "fracciones_de (ensamblar cv t img) = fracciones_de (respuesta_q cv 0 img 85)"
  by (simp add: ensamblar_eq fracciones_de_respuesta_q)

lemma map_of_respuesta_q:
  assumes "k \<noteq> ''timestamp''"
  shows "map_of (respuesta_q cv t img q) k = map_of (respuesta_q cv t' img q) k"
  using assms by (simp add: respuesta_q_def case_prod_beta)

lemma map_of_respuesta_q_calidad:
  assumes "k \<noteq> ''timestamp''" "k \<noteq> ''overlay_image''"
  shows "map_of (respuesta_q cv t img q) k = map_of (respuesta_q cv t' img q') k"
  using assms by (simp add: respuesta_q_def case_prod_beta)

lemma tamano_cv_reloj:
  "tamano cv_reloj t [[(0, 0, 0)]] q =
     102 + length (repr cv_reloj (Flotante t))
     + 4 * (((if q = 85 then 749913 else 500000) + 2) div 3)"
  by (simp add: tamano_def respuesta_q_def fracciones_negro [OF cv_reloj_campos(1,2,3)]
      cv_reloj_campos redondeo_par_ejemplos json_dumps_def comillas_def length_data_uri)

text \<open>
  Claim C5, as amended. The only input of \<^verbatim>\<open>procesar_imagen\<close> besides the payload is the
  clock. Two runs on the same payload with any two readings \<open>t\<close> and \<open>t'\<close> of the clock
  either both fail with the same error or both return a response with the same three
  fractions, and the two responses agree on every field other than the timestamp and the
  overlay. They agree on the overlay too when the size test has the same outcome in both
  runs; the test counts the characters of the printed timestamp, so that it can come
  out differently.
\<close>

theorem C5_determinismo:
  "map_sum id fracciones_de (procesar_imagen cv t s) =
     map_sum id fracciones_de (procesar_imagen cv t' s)
   \<and> (\<forall>k. k \<noteq> ''timestamp'' \<and> k \<noteq> ''overlay_image'' \<longrightarrow>
          map_of (ensamblar cv t img) k = map_of (ensamblar cv t' img) k)
   \<and> ((1000000 < tamano cv t img 85) = (1000000 < tamano cv t' img 85) \<longrightarrow>
          map_of (ensamblar cv t img) ''overlay_image'' =
          map_of (ensamblar cv t' img) ''overlay_image'')"
proof -
  have a: "map_sum id fracciones_de (procesar_imagen cv t s) =
             map_sum id fracciones_de (procesar_imagen cv t' s)"
    by (cases "decodificar cv s")
       (simp_all add: procesar_imagen_def fracciones_de_ensamblar [of cv t]
          fracciones_de_ensamblar [of cv t'])
  have b: "map_of (ensamblar cv t img) k = map_of (ensamblar cv t' img) k"
    if "k \<noteq> ''timestamp''" "k \<noteq> ''overlay_image''" for k
    using map_of_respuesta_q_calidad [OF that] by (simp add: ensamblar_eq)
  have c: "map_of (ensamblar cv t img) ''overlay_image'' =
           map_of (ensamblar cv t' img) ''overlay_image''"
    if "(1000000 < tamano cv t img 85) = (1000000 < tamano cv t' img 85)"
    using that map_of_respuesta_q [of "''overlay_image''" cv t img _ t']
    by (simp add: ensamblar_eq)
  from a b c show ?thesis by blast
qed

theorem C5_determinismo_witness:
  "tamano (cv_grande 30 20) 5 [[(0, 0, 0)]] 85 = 145
   \<and> tamano (cv_grande 30 20) 6 [[(0, 0, 0)]] 85 = 145
   \<and> map_sum id fracciones_de (procesar_imagen (cv_grande 30 20) 5 ''x'') =
       map_sum id fracciones_de (procesar_imagen (cv_grande 30 20) 6 ''x'')
   \<and> map_of (ensamblar (cv_grande 30 20) 5 [[(0, 0, 0)]]) ''otros'' =
       map_of (ensamblar (cv_grande 30 20) 6 [[(0, 0, 0)]]) ''otros''
   \<and> map_of (ensamblar (cv_grande 30 20) 5 [[(0, 0, 0)]]) ''overlay_image'' =
       map_of (ensamblar (cv_grande 30 20) 6 [[(0, 0, 0)]]) ''overlay_image''"
proof -
  have e: "(1000000 < tamano (cv_grande 30 20) 5 [[(0, 0, 0)]] 85) =
           (1000000 < tamano (cv_grande 30 20) 6 [[(0, 0, 0)]] 85)"
    by (simp add: tamano_cv_grande)
  have k: "''otros'' \<noteq> ''timestamp'' \<and> ''otros'' \<noteq> ''overlay_image''" by simp
  from C5_determinismo [of "cv_grande 30 20" 5 "''x''" 6 "[[(0, 0, 0)]]"] e k
  show ?thesis by (simp add: tamano_cv_grande)
qed

text \<open>
  The claim as stated fails for the overlay. The text with the quality 85 overlay has
  999,986 characters besides the timestamp. Read at 1700000000.25 the clock is printed
  with 13 characters, the text has 999,999 and the quality 85 overlay is returned; read at
  1700000000.0625 it is printed with 15 characters, the text has 1,000,001 and the quality
  65 overlay is returned. The two runs differ in the field \<^verbatim>\<open>overlay_image\<close>.
\<close>

theorem C5_contraejemplo:
  "tamano cv_reloj (6800000001 / 4) [[(0, 0, 0)]] 85 = 999999
   \<and> tamano cv_reloj (27200000001 / 16) [[(0, 0, 0)]] 85 = 1000001
   \<and> procesar_imagen cv_reloj (6800000001 / 4) ''x'' =
       Inr (respuesta_q cv_reloj (6800000001 / 4) [[(0, 0, 0)]] 85)
   \<and> procesar_imagen cv_reloj (27200000001 / 16) ''x'' =
       Inr (respuesta_q cv_reloj (27200000001 / 16) [[(0, 0, 0)]] 65)
   \<and> map_of (respuesta_q cv_reloj (6800000001 / 4) [[(0, 0, 0)]] 85) ''overlay_image''
       \<noteq> map_of (respuesta_q cv_reloj (27200000001 / 16) [[(0, 0, 0)]] 65)
           ''overlay_image''"
proof -
  have t1: "tamano cv_reloj (6800000001 / 4) [[(0, 0, 0)]] 85 = 999999"
    and t2: "tamano cv_reloj (27200000001 / 16) [[(0, 0, 0)]] 85 = 1000001"
    by (simp_all add: tamano_cv_reloj cv_reloj_campos)
  have p1: "procesar_imagen cv_reloj (6800000001 / 4) ''x'' =
              Inr (respuesta_q cv_reloj (6800000001 / 4) [[(0, 0, 0)]] 85)"
    by (simp add: procesar_imagen_def decodificar_cv_reloj ensamblar_eq t1)
  have p2: "procesar_imagen cv_reloj (27200000001 / 16) ''x'' =
              Inr (respuesta_q cv_reloj (27200000001 / 16) [[(0, 0, 0)]] 65)"
    by (simp add: procesar_imagen_def decodificar_cv_reloj ensamblar_eq t2)
  have "length (data_uri (replicate 749913 (0 :: uint8)))
          \<noteq> length (data_uri (replicate 500000 (0 :: uint8)))"
    by (simp add: length_data_uri)
  then have ne: "data_uri (replicate 749913 (0 :: uint8)) \<noteq> data_uri (replicate 500000 0)"
    by (rule contrapos_nn) simp
  have o: "map_of (respuesta_q cv_reloj (6800000001 / 4) [[(0, 0, 0)]] 85)
             ''overlay_image''
           \<noteq> map_of (respuesta_q cv_reloj (27200000001 / 16) [[(0, 0, 0)]] 65)
               ''overlay_image''"
    using ne by (simp add: respuesta_q_def case_prod_beta cv_reloj_campos)
  from t1 t2 p1 p2 o show ?thesis by simp
qed

section \<open>A grass region next to a soil region\<close>














































end
